theory Spec2Isabelle
  imports Complex_Main "HOL-Library.Word" "HOL-Library.AList"
begin

unbundle bit_operations_syntax

section \<open>The replaceableParts engine\<close>

text \<open>
  A shallow embedding of \<^verbatim>\<open>engine.js\<close> (the revision with grid placement:
  \<^verbatim>\<open>canPlaceAt\<close>, \<^verbatim>\<open>getNextExpansionChunk\<close>), function by function.

  Numbers. JavaScript numbers that the engine uses as counts, credits, seeds and grid
  dimensions are \<open>int\<close>; prices, popularity multipliers, random draws, weights of the
  research draw and placement coordinates are \<open>real\<close>. Arithmetic is exact: rounding of
  IEEE doubles is not modelled, and what is proved of placement and of the price and decay
  of a sale is stated on numbers that doubles add and multiply exactly (integer coordinates
  and sides, prices and multipliers with few binary places). Three places where the source
  leaves the finite numbers are written out: a quantity table can hold \<^verbatim>\<open>NaN\<close> (from \<^verbatim>\<open>undefined - n\<close>) or
  \<^verbatim>\<open>null\<close> (what the JSON round trip of \<^verbatim>\<open>deepClone\<close> makes of \<^verbatim>\<open>NaN\<close>); the stack bound
  of an item of weight 0 is infinite or \<^verbatim>\<open>NaN\<close>; the square root of a negative space cost
  is \<^verbatim>\<open>NaN\<close>.

  Objects used as tables (inventory, buffers, popularity, recipe inputs and outputs) are
  association lists in insertion order, which is the order \<^verbatim>\<open>Object.entries\<close> and
  \<^verbatim>\<open>Object.keys\<close> walk for keys that are not integer-like. An object has every key once.
\<close>

subsection \<open>Quantities as JavaScript values\<close>

datatype jsnum = Number int | NaN | Null

text \<open>\<^verbatim>\<open>table[k] || 0\<close>: a missing key, \<^verbatim>\<open>NaN\<close>, \<^verbatim>\<open>null\<close> and 0 all read as 0.\<close>

fun orZero :: "jsnum option \<Rightarrow> int" where
  "orZero (Some (Number n)) = n"
| "orZero _ = 0"

definition getQty :: "(string \<times> jsnum) list \<Rightarrow> string \<Rightarrow> int" where
  "getQty table k = orZero (map_of table k)"

text \<open>\<^verbatim>\<open>table[k] -= n\<close> reads the entry raw: \<^verbatim>\<open>undefined - n\<close> and \<^verbatim>\<open>NaN - n\<close> are
  \<^verbatim>\<open>NaN\<close>, \<^verbatim>\<open>null - n\<close> is \<open>0 - n\<close>.\<close>

fun jsSub :: "jsnum option \<Rightarrow> int \<Rightarrow> jsnum" where
  "jsSub (Some (Number a)) n = Number (a - n)"
| "jsSub (Some Null) n = Number (0 - n)"
| "jsSub (Some NaN) n = NaN"
| "jsSub None n = NaN"

text \<open>\<^verbatim>\<open>(table[k] || 0) + quantity\<close> where \<^verbatim>\<open>quantity\<close> is an entry of another table.\<close>

fun jsAdd :: "int \<Rightarrow> jsnum \<Rightarrow> jsnum" where
  "jsAdd c (Number n) = Number (c + n)"
| "jsAdd c Null = Number c"
| "jsAdd c NaN = NaN"

subsection \<open>Data model\<close>

datatype status = Idle | Working | Blocked

datatype kind = MachineKind | GeneratorKind

record machine =
  mId :: string
  recipeId :: "string option"
  internalBuffer :: "(string \<times> jsnum) list"
  status :: status
  enabled :: bool
  spaceUsed :: int
  energyConsumption :: int
  mX :: real
  mY :: real

record generator =
  gId :: string
  gType :: string
  energyOutput :: int
  gSpaceUsed :: int
  gX :: real
  gY :: real

record placement =
  pId :: string
  pX :: real
  pY :: real
  pSize :: real
  pType :: kind

record floorSpace =
  width :: int
  height :: int
  placements :: "placement list"

record energy =
  produced :: int
  consumed :: int

record extractionNode =
  nId :: string
  resourceType :: string
  rate :: int
  nActive :: bool

record research =
  rActive :: bool
  rEnergyConsumption :: int

record state =
  tick :: int
  rngSeed :: int
  credits :: int
  floorSpace :: floorSpace
  energy :: energy
  inventorySpace :: int
  inventory :: "(string \<times> jsnum) list"
  machines :: "machine list"
  generators :: "generator list"
  extractionNodes :: "extractionNode list"
  discoveredRecipes :: "string list"
  unlockedRecipes :: "string list"
  research :: research
  marketPopularity :: "(string \<times> real) list"

subsection \<open>Rules\<close>

text \<open>The rule table, with the fields the engine reads. Those it never reads (a material's
  category, a recipe's tier, energy and duration, the market's novelty bonus, a
  generator type's display name) are left out.\<close>

record material =
  matId :: string
  matName :: string
  basePrice :: real
  weight :: int

record recipe =
  rcId :: string
  inputs :: "(string \<times> int) list"
  outputs :: "(string \<times> int) list"

record marketRules =
  decayRate :: real
  recoveryRate :: real
  minPopularity :: real
  maxPopularity :: real

record researchRules =
  energyCost :: int
  discoveryChance :: real
  proximityWeight :: real

record machineRules =
  itemId :: string
  baseSpace :: int
  baseEnergy :: int

record generatorType =
  gtId :: string
  gtItemId :: string
  gtEnergyOutput :: int
  spaceCost :: int

text \<open>The fields \<^verbatim>\<open>getNextExpansionChunk\<close> destructures from \<^verbatim>\<open>rules.floorSpace\<close>.\<close>

record floorSpaceRules =
  initialWidth :: int
  initialChunkSize :: int
  costPerCell :: int

record inventorySpaceRules =
  baseCost :: real
  costGrowth :: real
  upgradeAmount :: int

record rules =
  materials :: "material list"
  recipes :: "recipe list"
  market :: marketRules
  researchCfg :: researchRules
  machineCfg :: machineRules
  generatorTypes :: "generatorType list"
  floorSpaceCfg :: floorSpaceRules
  inventorySpaceCfg :: inventorySpaceRules

subsection \<open>PRNG: Mulberry32\<close>

text \<open>
  \<^verbatim>\<open>next()\<close> on the seed held by the closure: the new seed (a signed 32-bit value, as
  \<^verbatim>\<open>| 0\<close> leaves it) and the draw. \<^verbatim>\<open>Math.imul\<close> is the wrapping product, \<^verbatim>\<open>>>>\<close> the
  logical shift, and \<^verbatim>\<open>t + Math.imul(..) ^ t\<close> parses as \<^verbatim>\<open>(t + Math.imul(..)) ^ t\<close>.
\<close>

definition rngNext :: "int \<Rightarrow> int \<times> real" where
  "rngNext seed =
     (let cs = (word_of_int seed :: 32 word) + 0x6D2B79F5;
          t = (cs XOR drop_bit 15 cs) * (1 OR cs);
          t = (t + (t XOR drop_bit 7 t) * (61 OR t)) XOR t
      in (sint cs, real (unat (t XOR drop_bit 14 t)) / 4294967296))"

subsection \<open>Utility functions\<close>

text \<open>\<^verbatim>\<open>JSON.parse(JSON.stringify(obj))\<close>: \<^verbatim>\<open>NaN\<close> is written as \<^verbatim>\<open>null\<close>; every other
  value of the model comes back as it was.\<close>

fun cloneNum :: "jsnum \<Rightarrow> jsnum" where
  "cloneNum NaN = Null"
| "cloneNum v = v"

definition cloneTable :: "(string \<times> jsnum) list \<Rightarrow> (string \<times> jsnum) list" where
  "cloneTable table = map (\<lambda>(k, v). (k, cloneNum v)) table"

definition deepClone :: "state \<Rightarrow> state" where
  "deepClone s =
     s\<lparr>inventory := cloneTable (inventory s),
       machines := map (\<lambda>m. m\<lparr>internalBuffer := cloneTable (internalBuffer m)\<rparr>) (machines s)\<rparr>"

definition getItemWeight :: "string \<Rightarrow> rules \<Rightarrow> int" where
  "getItemWeight item r =
     (case find (\<lambda>m. matId m = item) (materials r) of
        Some m \<Rightarrow> weight m
      | None \<Rightarrow> 1)"

text \<open>\<^verbatim>\<open>Math.floor(inventoryCapacity / weight)\<close>; for weight 0 the quotient is
  \<^verbatim>\<open>Infinity\<close>, \<^verbatim>\<open>-Infinity\<close> or \<^verbatim>\<open>NaN\<close>.\<close>

datatype stack = Finite int | PosInf | NegInf | NotANumber

definition getMaxStack :: "string \<Rightarrow> int \<Rightarrow> rules \<Rightarrow> stack" where
  "getMaxStack item inventoryCapacity r =
     (let w = getItemWeight item r
      in if w \<noteq> 0 then Finite (inventoryCapacity div w)
         else if 0 < inventoryCapacity then PosInf
         else if inventoryCapacity < 0 then NegInf
         else NotANumber)"

text \<open>\<^verbatim>\<open>Math.min(rate, maxStack - currentAmount)\<close>, read only through \<^verbatim>\<open>toAdd > 0\<close>: the
  value 0 stands for the two results (\<^verbatim>\<open>-Infinity\<close>, \<^verbatim>\<open>NaN\<close>) that fail that test.\<close>

fun minSpaceLeft :: "int \<Rightarrow> stack \<Rightarrow> int \<Rightarrow> int" where
  "minSpaceLeft n (Finite maxStack) currentAmount = min n (maxStack - currentAmount)"
| "minSpaceLeft n PosInf currentAmount = n"
| "minSpaceLeft n NegInf currentAmount = 0"
| "minSpaceLeft n NotANumber currentAmount = 0"

text \<open>\<^verbatim>\<open>maxStack - currentAmount < quantity\<close>.\<close>

fun spaceLeftBelow :: "stack \<Rightarrow> int \<Rightarrow> int \<Rightarrow> bool" where
  "spaceLeftBelow (Finite maxStack) currentAmount quantity = (maxStack - currentAmount < quantity)"
| "spaceLeftBelow PosInf currentAmount quantity = False"
| "spaceLeftBelow NegInf currentAmount quantity = True"
| "spaceLeftBelow NotANumber currentAmount quantity = False"

text \<open>\<^verbatim>\<open>findIndex\<close>, with \<open>None\<close> for -1, and \<^verbatim>\<open>splice(i, 1)\<close>.\<close>

fun findIndex :: "('a \<Rightarrow> bool) \<Rightarrow> 'a list \<Rightarrow> nat option" where
  "findIndex P [] = None"
| "findIndex P (x # xs) =
     (if P x then Some 0 else map_option Suc (findIndex P xs))"

definition splice1 :: "nat \<Rightarrow> 'a list \<Rightarrow> 'a list" where
  "splice1 i xs = take i xs @ drop (Suc i) xs"

subsection \<open>Grid placement\<close>

text \<open>\<^verbatim>\<open>Math.sqrt(spaceCost)\<close>; \<open>None\<close> is \<^verbatim>\<open>NaN\<close>, the root of a negative cost.\<close>

definition getStructureSize :: "int \<Rightarrow> real option" where
  "getStructureSize cost = (if cost < 0 then None else Some (sqrt (real_of_int cost)))"

definition isWithinBounds :: "real \<Rightarrow> real \<Rightarrow> real \<Rightarrow> int \<Rightarrow> int \<Rightarrow> bool" where
  "isWithinBounds x y sz w h \<longleftrightarrow>
     x \<ge> 0 \<and> y \<ge> 0 \<and> x + sz \<le> real_of_int w \<and> y + sz \<le> real_of_int h"

fun isColliding :: "real \<Rightarrow> real \<Rightarrow> real \<Rightarrow> placement list \<Rightarrow> bool" where
  "isColliding x y sz [] = False"
| "isColliding x y sz (p # ps) =
     (let noOverlap =
            (x + sz \<le> pX p \<or> pX p + pSize p \<le> x \<or> y + sz \<le> pY p \<or> pY p + pSize p \<le> y)
      in if \<not> noOverlap then True else isColliding x y sz ps)"

datatype error =
    PositionRequired
  | OutOfBounds
  | Collides
  | NeedItem string
  | MachineNotFound
  | RecipeNotFound
  | RecipeNotUnlocked
  | GeneratorTypeNotFound
  | GeneratorNotFound
  | NotEnoughCredits int
  | NotEnoughItems
  | ItemNotInMaterials
  | RecipeNotDiscovered
  | RecipeAlreadyUnlocked
  | MachineNotBlocked
  | UnknownAction string

text \<open>The result \<^verbatim>\<open>{ valid, error }\<close>: \<open>None\<close> is \<^verbatim>\<open>{ valid: true, error: null }\<close>.\<close>

definition canPlaceAt :: "state \<Rightarrow> real \<Rightarrow> real \<Rightarrow> real \<Rightarrow> error option" where
  "canPlaceAt s x y sz =
     (if \<not> isWithinBounds x y sz (width (floorSpace s)) (height (floorSpace s))
        then Some OutOfBounds
      else if isColliding x y sz (placements (floorSpace s)) then Some Collides
      else None)"

text \<open>The \<^verbatim>\<open>while\<close> loop of \<^verbatim>\<open>getNextExpansionChunk\<close>; a run that never leaves the loop
  has the value \<open>None\<close>.\<close>

partial_function (option) findTarget :: "int \<Rightarrow> int \<Rightarrow> int \<Rightarrow> int \<Rightarrow> (int \<times> int) option" where
  "findTarget w h chunkSize targetSquare =
     (if w \<ge> targetSquare \<and> h \<ge> targetSquare
        then findTarget w h (chunkSize * 2) (targetSquare * 2)
      else Some (chunkSize, targetSquare))"

record expansion =
  chunkSize :: int
  newWidth :: int
  newHeight :: int
  cellsAdded :: int
  cost :: int
  expandWidth :: bool

definition getNextExpansionChunk :: "state \<Rightarrow> rules \<Rightarrow> expansion option" where
  "getNextExpansionChunk s r =
     (let w = width (floorSpace s); h = height (floorSpace s);
          cfg = floorSpaceCfg r
      in case findTarget w h (initialChunkSize cfg) (initialWidth cfg * 2) of
           None \<Rightarrow> None
         | Some (chunk, targetSquare) \<Rightarrow>
             (let ew = (w < targetSquare);
                  nw = (if ew then w + chunk else w);
                  nh = (if ew then h else h + chunk);
                  cells = chunk * chunk
              in Some \<lparr>chunkSize = chunk, newWidth = nw, newHeight = nh,
                       cellsAdded = cells, cost = cells * costPerCell cfg,
                       expandWidth = ew\<rparr>))"

subsection \<open>Energy\<close>

text \<open>\<^verbatim>\<open>machine.recipeId\<close> as a condition: \<^verbatim>\<open>null\<close> and the empty string are falsy.\<close>

definition hasRecipe :: "machine \<Rightarrow> bool" where
  "hasRecipe m = (case recipeId m of None \<Rightarrow> False | Some rid \<Rightarrow> rid \<noteq> [])"

definition drawsPower :: "machine \<Rightarrow> bool" where
  "drawsPower m \<longleftrightarrow> enabled m \<and> hasRecipe m \<and> status m \<noteq> Blocked"

definition calculateEnergy :: "state \<Rightarrow> energy" where
  "calculateEnergy s =
     \<lparr>produced = foldl (\<lambda>sum g. sum + energyOutput g) 0 (generators s),
      consumed = foldl (\<lambda>c m. if drawsPower m then c + energyConsumption m else c) 0 (machines s)\<rparr>"

subsection \<open>Simulation: power allocation\<close>

text \<open>The loop \<^verbatim>\<open>for (i = length - 1; i >= 0 && deficit > 0; i--)\<close>; the first argument is
  \<open>i + 1\<close>.\<close>

fun blockLoop :: "nat \<Rightarrow> int \<Rightarrow> machine list \<Rightarrow> machine list" where
  "blockLoop 0 deficit ms = ms"
| "blockLoop (Suc i) deficit ms =
     (if deficit > 0
        then (let m = ms ! i
              in if drawsPower m
                   then blockLoop i (deficit - energyConsumption m) (ms[i := m\<lparr>status := Blocked\<rparr>])
                 else blockLoop i deficit ms)
      else ms)"

definition allocatePower :: "state \<Rightarrow> state" where
  "allocatePower s =
     (let e = calculateEnergy s;
          s1 = s\<lparr>energy := e\<rparr>
      in if consumed e > produced e
           then (let s2 = s1\<lparr>machines :=
                             blockLoop (length (machines s1)) (consumed e - produced e) (machines s1)\<rparr>
                 in s2\<lparr>energy := calculateEnergy s2\<rparr>)
         else s1)"

subsection \<open>Simulation: extraction\<close>

definition extractNode :: "rules \<Rightarrow> int \<Rightarrow> (string \<times> jsnum) list \<Rightarrow> extractionNode \<Rightarrow> (string \<times> jsnum) list" where
  "extractNode r space iv node =
     (if nActive node
        then (let resourceId = resourceType node;
                  currentAmount = getQty iv resourceId;
                  toAdd = minSpaceLeft (rate node) (getMaxStack resourceId space r) currentAmount
              in if toAdd > 0 then AList.update resourceId (Number (currentAmount + toAdd)) iv
                 else iv)
      else iv)"

definition extractionPhase :: "rules \<Rightarrow> state \<Rightarrow> state" where
  "extractionPhase r s =
     s\<lparr>inventory := foldl (extractNode r (inventorySpace s)) (inventory s) (extractionNodes s)\<rparr>"

subsection \<open>Simulation: machine processing\<close>

text \<open>One step of the pull loop. The flag \<^verbatim>\<open>canProgress\<close> that the source sets here is never
  read and is left out.\<close>

definition pullItem ::
  "(string \<times> jsnum) list \<times> (string \<times> jsnum) list \<Rightarrow> string \<times> int
     \<Rightarrow> (string \<times> jsnum) list \<times> (string \<times> jsnum) list" where
  "pullItem bi e =
     (case (bi, e) of ((buf, iv), (item, needed)) \<Rightarrow>
        (let inBuffer = getQty buf item;
             stillNeeded = needed - inBuffer
         in if stillNeeded > 0
              then (let available = getQty iv item;
                        toPull = min stillNeeded available
                    in if toPull > 0
                         then (AList.update item (Number (inBuffer + toPull)) buf,
                               AList.update item (jsSub (map_of iv item) toPull) iv)
                       else (buf, iv))
            else (buf, iv)))"

definition pullPhase ::
  "(string \<times> int) list \<Rightarrow> (string \<times> jsnum) list \<times> (string \<times> jsnum) list
     \<Rightarrow> (string \<times> jsnum) list \<times> (string \<times> jsnum) list" where
  "pullPhase ins bi = foldl pullItem bi ins"

fun bufferComplete :: "(string \<times> jsnum) list \<Rightarrow> (string \<times> int) list \<Rightarrow> bool" where
  "bufferComplete buf [] = True"
| "bufferComplete buf ((item, needed) # ins) =
     (if getQty buf item < needed then False else bufferComplete buf ins)"

fun canProduce :: "rules \<Rightarrow> int \<Rightarrow> (string \<times> jsnum) list \<Rightarrow> (string \<times> int) list \<Rightarrow> bool" where
  "canProduce r space iv [] = True"
| "canProduce r space iv ((item, quantity) # outs) =
     (if spaceLeftBelow (getMaxStack item space r) (getQty iv item) quantity then False
      else canProduce r space iv outs)"

text \<open>\<^verbatim>\<open>table[k] -= n; if (table[k] === 0) delete table[k]\<close>, as the buffer debit, the
  deployment of an item and the sale write it.\<close>

definition subAndPrune :: "(string \<times> jsnum) list \<Rightarrow> string \<Rightarrow> int \<Rightarrow> (string \<times> jsnum) list" where
  "subAndPrune table k n =
     (let v = jsSub (map_of table k) n
      in if v = Number 0 then AList.delete k table else AList.update k v table)"

definition consumeItem :: "(string \<times> jsnum) list \<Rightarrow> string \<times> int \<Rightarrow> (string \<times> jsnum) list" where
  "consumeItem buf e = (case e of (item, needed) \<Rightarrow> subAndPrune buf item needed)"

definition addOutput :: "(string \<times> jsnum) list \<Rightarrow> string \<times> int \<Rightarrow> (string \<times> jsnum) list" where
  "addOutput iv e =
     (case e of (item, quantity) \<Rightarrow> AList.update item (Number (getQty iv item + quantity)) iv)"

text \<open>The completion check and what follows it, on the buffer and the inventory.\<close>

definition completion ::
  "rules \<Rightarrow> int \<Rightarrow> recipe \<Rightarrow> (string \<times> jsnum) list \<times> (string \<times> jsnum) list
     \<Rightarrow> (string \<times> jsnum) list \<times> (string \<times> jsnum) list" where
  "completion r space rc bi =
     (case bi of (buf, iv) \<Rightarrow>
        if bufferComplete buf (inputs rc)
          then (if canProduce r space iv (outputs rc)
                  then (foldl consumeItem buf (inputs rc), foldl addOutput iv (outputs rc))
                else (buf, iv))
        else (buf, iv))"

text \<open>The body of the loop over machines: the machine and the inventory after it.\<close>

definition processMachine ::
  "rules \<Rightarrow> int \<Rightarrow> string list \<Rightarrow> (string \<times> jsnum) list \<Rightarrow> machine
     \<Rightarrow> machine \<times> (string \<times> jsnum) list" where
  "processMachine r space unlocked iv m =
     (if \<not> enabled m \<or> \<not> hasRecipe m \<or> status m = Blocked then (m, iv)
      else case find (\<lambda>rc. Some (rcId rc) = recipeId m) (recipes r) of
             None \<Rightarrow> (m\<lparr>status := Idle\<rparr>, iv)
           | Some rc \<Rightarrow>
               if rcId rc \<notin> set unlocked then (m\<lparr>status := Idle\<rparr>, iv)
               else (case completion r space rc (pullPhase (inputs rc) (internalBuffer m, iv)) of
                       (buf, iv') \<Rightarrow> (m\<lparr>status := Working, internalBuffer := buf\<rparr>, iv')))"

fun processMachines ::
  "rules \<Rightarrow> int \<Rightarrow> string list \<Rightarrow> (string \<times> jsnum) list \<Rightarrow> machine list
     \<Rightarrow> machine list \<times> (string \<times> jsnum) list" where
  "processMachines r space unlocked iv [] = ([], iv)"
| "processMachines r space unlocked iv (m # ms) =
     (case processMachine r space unlocked iv m of
        (m', iv') \<Rightarrow>
          (case processMachines r space unlocked iv' ms of
             (ms', iv'') \<Rightarrow> (m' # ms', iv'')))"

definition machinePhase :: "rules \<Rightarrow> state \<Rightarrow> state" where
  "machinePhase r s =
     (case processMachines r (inventorySpace s) (unlockedRecipes s) (inventory s) (machines s) of
        (ms, iv) \<Rightarrow> s\<lparr>machines := ms, inventory := iv\<rparr>)"

subsection \<open>Simulation: research\<close>

text \<open>The weight of an undiscovered recipe: 1, plus \<^verbatim>\<open>proximityWeight\<close> for each input key
  held in the inventory.\<close>

definition recipeWeight :: "rules \<Rightarrow> (string \<times> jsnum) list \<Rightarrow> recipe \<Rightarrow> real" where
  "recipeWeight r iv rc =
     foldl (\<lambda>w item. if getQty iv item > 0 then w + proximityWeight (researchCfg r) else w)
       1 (map fst (inputs rc))"

text \<open>The selection loop: \<open>Some\<close> the recipe at which \<^verbatim>\<open>selection\<close> reaches 0 or less.\<close>

fun selectRecipe :: "real \<Rightarrow> (recipe \<times> real) list \<Rightarrow> recipe option" where
  "selectRecipe selection [] = None"
| "selectRecipe selection ((rc, w) # rest) =
     (let selection' = selection - w
      in if selection' \<le> 0 then Some rc else selectRecipe selection' rest)"

text \<open>The research phase: the state, and the seed the generator is left with.\<close>

definition researchPhase :: "rules \<Rightarrow> int \<Rightarrow> state \<Rightarrow> state \<times> int" where
  "researchPhase r seed s =
     (let spareEnergy = produced (energy s) - consumed (energy s)
      in if rActive (research s) \<and> spareEnergy \<ge> energyCost (researchCfg r)
           then (case rngNext seed of (seed1, roll) \<Rightarrow>
                   (let undiscovered = filter (\<lambda>rc. rcId rc \<notin> set (discoveredRecipes s)) (recipes r)
                    in if length undiscovered > 0 \<and> roll < discoveryChance (researchCfg r)
                         then (let weighted = map (\<lambda>rc. (rc, recipeWeight r (inventory s) rc)) undiscovered;
                                   totalWeight = foldl (\<lambda>sum rw. sum + snd rw) 0 weighted
                               in case rngNext seed1 of (seed2, roll2) \<Rightarrow>
                                    (case selectRecipe (roll2 * totalWeight) weighted of
                                       Some rc \<Rightarrow>
                                         (s\<lparr>discoveredRecipes := discoveredRecipes s @ [rcId rc]\<rparr>, seed2)
                                     | None \<Rightarrow> (s, seed2)))
                       else (s, seed1)))
         else (s, seed))"

subsection \<open>Simulation: market recovery and the tick\<close>

text \<open>\<^verbatim>\<open>soldThisTick\<close> is created empty and never filled, so every tracked item recovers.\<close>

definition marketPhase :: "rules \<Rightarrow> state \<Rightarrow> state" where
  "marketPhase r s =
     s\<lparr>marketPopularity :=
         map (\<lambda>(item, p). (item, min (maxPopularity (market r)) (p + recoveryRate (market r))))
           (marketPopularity s)\<rparr>"

definition simulateTick :: "state \<Rightarrow> rules \<Rightarrow> state" where
  "simulateTick s r =
     (let s1 = allocatePower (deepClone s);
          s2 = extractionPhase r s1;
          s3 = machinePhase r s2
      in case researchPhase r (rngSeed s) s3 of
           (s4, seed) \<Rightarrow>
             (let s5 = marketPhase r s4
              in s5\<lparr>tick := tick s5 + 1, rngSeed := seed\<rparr>))"

subsection \<open>Action handlers\<close>

text \<open>
  A handler returns the pair \<^verbatim>\<open>{ state, error }\<close>, with \<open>None\<close> for \<^verbatim>\<open>error: null\<close>.
  The identifier of a new machine or generator is \<^verbatim>\<open>generateId()\<close>, which reads
  \<^verbatim>\<open>Math.random()\<close>: it is no function of the engine's arguments, so the handlers that
  call it take its result as the argument \<open>newId\<close>.
\<close>

definition itemName :: "rules \<Rightarrow> string \<Rightarrow> string" where
  "itemName r item =
     (case find (\<lambda>m. matId m = item) (materials r) of
        Some m \<Rightarrow> matName m
      | None \<Rightarrow> item)"

definition addMachine ::
  "string \<Rightarrow> state \<Rightarrow> rules \<Rightarrow> real option \<Rightarrow> real option \<Rightarrow> state \<times> error option" where
  "addMachine newId s r px py =
     (let ns = deepClone s
      in case (px, py) of
           (Some x, Some y) \<Rightarrow>
             (case getStructureSize (baseSpace (machineCfg r)) of
                None \<Rightarrow> (ns, Some OutOfBounds)
              | Some sz \<Rightarrow>
                  (case canPlaceAt ns x y sz of
                     Some e \<Rightarrow> (ns, Some e)
                   | None \<Rightarrow>
                       (let requiredItemId = itemId (machineCfg r);
                            available = getQty (inventory ns) requiredItemId
                        in if available < 1
                             then (ns, Some (NeedItem (itemName r requiredItemId)))
                           else (ns\<lparr>inventory := subAndPrune (inventory ns) requiredItemId 1,
                                    machines := machines ns @
                                      [\<lparr>mId = newId, recipeId = None, internalBuffer = [],
                                        status = Idle, enabled = True,
                                        spaceUsed = baseSpace (machineCfg r),
                                        energyConsumption = baseEnergy (machineCfg r),
                                        mX = x, mY = y\<rparr>],
                                    floorSpace := (floorSpace ns)\<lparr>placements :=
                                      placements (floorSpace ns) @
                                        [\<lparr>pId = newId, pX = x, pY = y, pSize = sz,
                                          pType = MachineKind\<rparr>]\<rparr>\<rparr>,
                                 None))))
         | _ \<Rightarrow> (ns, Some PositionRequired))"

definition returnItem :: "(string \<times> jsnum) list \<Rightarrow> string \<times> jsnum \<Rightarrow> (string \<times> jsnum) list" where
  "returnItem iv e =
     (case e of (item, quantity) \<Rightarrow> AList.update item (jsAdd (getQty iv item) quantity) iv)"

definition removePlacement :: "string \<Rightarrow> placement list \<Rightarrow> placement list" where
  "removePlacement ident ps =
     (case findIndex (\<lambda>p. pId p = ident) ps of
        None \<Rightarrow> ps
      | Some j \<Rightarrow> splice1 j ps)"

definition removeMachine :: "state \<Rightarrow> rules \<Rightarrow> string \<Rightarrow> state \<times> error option" where
  "removeMachine s r machineId =
     (let ns = deepClone s
      in case findIndex (\<lambda>m. mId m = machineId) (machines ns) of
           None \<Rightarrow> (ns, Some MachineNotFound)
         | Some i \<Rightarrow>
             (let m = machines ns ! i
              in (ns\<lparr>inventory := foldl returnItem (inventory ns) (internalBuffer m),
                     machines := splice1 i (machines ns),
                     floorSpace := (floorSpace ns)\<lparr>placements :=
                       removePlacement machineId (placements (floorSpace ns))\<rparr>\<rparr>,
                  None)))"

text \<open>The checks under \<^verbatim>\<open>if (recipeId !== null)\<close>.\<close>

definition recipeError :: "rules \<Rightarrow> state \<Rightarrow> string option \<Rightarrow> error option" where
  "recipeError r ns rid =
     (case rid of
        None \<Rightarrow> None
      | Some x \<Rightarrow>
          if find (\<lambda>rc. rcId rc = x) (recipes r) = None then Some RecipeNotFound
          else if x \<notin> set (unlockedRecipes ns) then Some RecipeNotUnlocked
          else None)"

definition assignRecipe :: "state \<Rightarrow> rules \<Rightarrow> string \<Rightarrow> string option \<Rightarrow> state \<times> error option" where
  "assignRecipe s r machineId rid =
     (let ns = deepClone s
      in case findIndex (\<lambda>m. mId m = machineId) (machines ns) of
           None \<Rightarrow> (ns, Some MachineNotFound)
         | Some i \<Rightarrow>
             (case recipeError r ns rid of
                Some e \<Rightarrow> (ns, Some e)
              | None \<Rightarrow>
                  (let m = machines ns ! i
                   in (ns\<lparr>inventory := foldl returnItem (inventory ns) (internalBuffer m),
                          machines := (machines ns)
                            [i := m\<lparr>recipeId := rid, internalBuffer := [],
                                    status := (if rid \<noteq> None \<and> rid \<noteq> Some [] then Working else Idle)\<rparr>]\<rparr>,
                       None))))"

definition addGenerator ::
  "string \<Rightarrow> state \<Rightarrow> rules \<Rightarrow> string \<Rightarrow> real option \<Rightarrow> real option \<Rightarrow> state \<times> error option" where
  "addGenerator newId s r generatorType px py =
     (let ns = deepClone s
      in case (px, py) of
           (Some x, Some y) \<Rightarrow>
             (case find (\<lambda>g. gtId g = generatorType) (generatorTypes r) of
                None \<Rightarrow> (ns, Some GeneratorTypeNotFound)
              | Some genConfig \<Rightarrow>
                  (case getStructureSize (spaceCost genConfig) of
                     None \<Rightarrow> (ns, Some OutOfBounds)
                   | Some sz \<Rightarrow>
                       (case canPlaceAt ns x y sz of
                          Some e \<Rightarrow> (ns, Some e)
                        | None \<Rightarrow>
                            (let requiredItemId = gtItemId genConfig;
                                 available = getQty (inventory ns) requiredItemId
                             in if available < 1
                                  then (ns, Some (NeedItem (itemName r requiredItemId)))
                                else (let ns1 = ns\<lparr>inventory := subAndPrune (inventory ns) requiredItemId 1,
                                                   generators := generators ns @
                                                     [\<lparr>gId = newId, gType = generatorType,
                                                       energyOutput = gtEnergyOutput genConfig,
                                                       gSpaceUsed = spaceCost genConfig,
                                                       gX = x, gY = y\<rparr>],
                                                   floorSpace := (floorSpace ns)\<lparr>placements :=
                                                     placements (floorSpace ns) @
                                                       [\<lparr>pId = newId, pX = x, pY = y, pSize = sz,
                                                         pType = GeneratorKind\<rparr>]\<rparr>\<rparr>
                                      in (ns1\<lparr>energy := calculateEnergy ns1\<rparr>, None))))))
         | _ \<Rightarrow> (ns, Some PositionRequired))"

definition removeGenerator :: "state \<Rightarrow> rules \<Rightarrow> string \<Rightarrow> state \<times> error option" where
  "removeGenerator s r generatorId =
     (let ns = deepClone s
      in case findIndex (\<lambda>g. gId g = generatorId) (generators ns) of
           None \<Rightarrow> (ns, Some GeneratorNotFound)
         | Some i \<Rightarrow>
             (let ns1 = ns\<lparr>generators := splice1 i (generators ns),
                           floorSpace := (floorSpace ns)\<lparr>placements :=
                             removePlacement generatorId (placements (floorSpace ns))\<rparr>\<rparr>
              in (ns1\<lparr>energy := calculateEnergy ns1\<rparr>, None)))"

text \<open>\<open>None\<close> when \<^verbatim>\<open>getNextExpansionChunk\<close> does not return.\<close>

definition buyFloorSpace :: "state \<Rightarrow> rules \<Rightarrow> (state \<times> error option) option" where
  "buyFloorSpace s r =
     (let ns = deepClone s
      in case getNextExpansionChunk ns r of
           None \<Rightarrow> None
         | Some ex \<Rightarrow>
             if credits ns < cost ex then Some (ns, Some (NotEnoughCredits (cost ex)))
             else Some (ns\<lparr>credits := credits ns - cost ex,
                           floorSpace := (floorSpace ns)\<lparr>width := newWidth ex,
                                                          height := newHeight ex\<rparr>\<rparr>,
                        None))"

text \<open>\<^verbatim>\<open>marketPopularity[itemId] || d\<close>: a missing entry and the multiplier 0 are falsy.\<close>

definition popularityOr :: "(string \<times> real) list \<Rightarrow> string \<Rightarrow> real \<Rightarrow> real" where
  "popularityOr pop item d =
     (case map_of pop item of
        None \<Rightarrow> d
      | Some p \<Rightarrow> if p \<noteq> 0 then p else d)"

text \<open>The sale. The source writes the multiplier twice when the entry is falsy, first
  \<^verbatim>\<open>maxPopularity\<close> and then the decayed value computed from it; \<open>start\<close> is the value the
  second write reads, and the one write below leaves the table as the two do.\<close>

definition sellGoods :: "state \<Rightarrow> rules \<Rightarrow> string \<Rightarrow> int \<Rightarrow> state \<times> error option" where
  "sellGoods s r item quantity =
     (let ns = deepClone s;
          available = getQty (inventory ns) item
      in if available < quantity then (ns, Some NotEnoughItems)
         else case find (\<lambda>m. matId m = item) (materials r) of
                None \<Rightarrow> (ns, Some ItemNotInMaterials)
              | Some mat \<Rightarrow>
                  (let popularity = popularityOr (marketPopularity ns) item 1;
                       pricePerUnit = basePrice mat * popularity;
                       totalCredits = \<lfloor>pricePerUnit * real_of_int quantity\<rfloor>;
                       start = popularityOr (marketPopularity ns) item (maxPopularity (market r))
                   in (ns\<lparr>inventory := subAndPrune (inventory ns) item quantity,
                          credits := credits ns + totalCredits,
                          marketPopularity :=
                            AList.update item
                              (max (minPopularity (market r))
                                 (start - decayRate (market r) * real_of_int quantity))
                              (marketPopularity ns)\<rparr>,
                       None)))"

definition toggleResearch :: "state \<Rightarrow> rules \<Rightarrow> bool \<Rightarrow> state \<times> error option" where
  "toggleResearch s r active =
     (let ns = deepClone s;
          ns1 = ns\<lparr>research := (research ns)\<lparr>rActive := active\<rparr>\<rparr>
      in (ns1\<lparr>energy := calculateEnergy ns1\<rparr>, None))"

definition unlockRecipe :: "state \<Rightarrow> rules \<Rightarrow> string \<Rightarrow> state \<times> error option" where
  "unlockRecipe s r rid =
     (let ns = deepClone s
      in if rid \<notin> set (discoveredRecipes ns) then (ns, Some RecipeNotDiscovered)
         else if rid \<in> set (unlockedRecipes ns) then (ns, Some RecipeAlreadyUnlocked)
         else (ns\<lparr>unlockedRecipes := unlockedRecipes ns @ [rid]\<rparr>, None))"

definition unblockMachine :: "state \<Rightarrow> rules \<Rightarrow> string \<Rightarrow> state \<times> error option" where
  "unblockMachine s r machineId =
     (let ns = deepClone s
      in case findIndex (\<lambda>m. mId m = machineId) (machines ns) of
           None \<Rightarrow> (ns, Some MachineNotFound)
         | Some i \<Rightarrow>
             (let m = machines ns ! i
              in if status m \<noteq> Blocked then (ns, Some MachineNotBlocked)
                 else (let ns1 = ns\<lparr>machines := (machines ns)
                                      [i := m\<lparr>status := (if hasRecipe m then Working else Idle)\<rparr>]\<rparr>
                       in (ns1\<lparr>energy := calculateEnergy ns1\<rparr>, None))))"

definition toggleMachine :: "state \<Rightarrow> rules \<Rightarrow> string \<Rightarrow> state \<times> error option" where
  "toggleMachine s r machineId =
     (let ns = deepClone s
      in case findIndex (\<lambda>m. mId m = machineId) (machines ns) of
           None \<Rightarrow> (ns, Some MachineNotFound)
         | Some i \<Rightarrow>
             (let m = machines ns ! i;
                  ns1 = ns\<lparr>machines := (machines ns)[i := m\<lparr>enabled := \<not> enabled m\<rparr>]\<rparr>
              in (ns1\<lparr>energy := calculateEnergy ns1\<rparr>, None)))"

text \<open>The cost \<^verbatim>\<open>floor(baseCost * pow(costGrowth, floor(inventorySpace / upgradeAmount)))\<close>.
  The quotient is the floor division of integers; where the source computes with
  \<^verbatim>\<open>Infinity\<close> or \<^verbatim>\<open>NaN\<close> (an upgrade amount of 0, a growth of 0 at a negative level) the
  value here is not the source's, and nothing below depends on the cost.\<close>

definition upgradeCost :: "state \<Rightarrow> rules \<Rightarrow> int" where
  "upgradeCost s r =
     (let cfg = inventorySpaceCfg r;
          currentLevel = inventorySpace s div upgradeAmount cfg
      in \<lfloor>baseCost cfg * power_int (costGrowth cfg) currentLevel\<rfloor>)"

definition buyInventorySpace :: "state \<Rightarrow> rules \<Rightarrow> state \<times> error option" where
  "buyInventorySpace s r =
     (let ns = deepClone s;
          c = upgradeCost ns r
      in if credits ns < c then (ns, Some (NotEnoughCredits c))
         else (ns\<lparr>credits := credits ns - c,
                  inventorySpace := inventorySpace ns + upgradeAmount (inventorySpaceCfg r)\<rparr>,
               None))"

subsection \<open>The engine\<close>

text \<open>The action: its \<^verbatim>\<open>type\<close> tag with the fields the handler reads from the payload.
  \<open>Other\<close> is any tag the \<^verbatim>\<open>switch\<close> does not list.\<close>

datatype action =
    Simulate
  | AddMachine "real option" "real option"
  | RemoveMachine string
  | AssignRecipe string "string option"
  | AddGenerator string "real option" "real option"
  | RemoveGenerator string
  | BuyFloorSpace
  | SellGoods string int
  | ToggleResearch bool
  | UnlockRecipe string
  | UnblockMachine string
  | ToggleMachine string
  | BuyInventorySpace
  | Other string

text \<open>\<open>engine newId s r a\<close>: \<open>newId\<close> is what \<^verbatim>\<open>generateId()\<close> returns in this call, should
  the handler ask for it; \<open>None\<close> is a call that does not return.\<close>

fun engine :: "string \<Rightarrow> state \<Rightarrow> rules \<Rightarrow> action \<Rightarrow> (state \<times> error option) option" where
  "engine newId s r Simulate = Some (simulateTick s r, None)"
| "engine newId s r (AddMachine px py) = Some (addMachine newId s r px py)"
| "engine newId s r (RemoveMachine machineId) = Some (removeMachine s r machineId)"
| "engine newId s r (AssignRecipe machineId rid) = Some (assignRecipe s r machineId rid)"
| "engine newId s r (AddGenerator generatorType px py) = Some (addGenerator newId s r generatorType px py)"
| "engine newId s r (RemoveGenerator generatorId) = Some (removeGenerator s r generatorId)"
| "engine newId s r BuyFloorSpace = buyFloorSpace s r"
| "engine newId s r (SellGoods item quantity) = Some (sellGoods s r item quantity)"
| "engine newId s r (ToggleResearch active) = Some (toggleResearch s r active)"
| "engine newId s r (UnlockRecipe rid) = Some (unlockRecipe s r rid)"
| "engine newId s r (UnblockMachine machineId) = Some (unblockMachine s r machineId)"
| "engine newId s r (ToggleMachine machineId) = Some (toggleMachine s r machineId)"
| "engine newId s r BuyInventorySpace = Some (buyInventorySpace s r)"
| "engine newId s r (Other tag) = Some (s, Some (UnknownAction tag))"

subsection \<open>A rule table and a state to run the engine on\<close>

text \<open>A cut of the default rules: three materials, two recipes, the market, research,
  machine and storage constants of \<^verbatim>\<open>defaultRules\<close>. The floor constants that
  \<^verbatim>\<open>getNextExpansionChunk\<close> reads are not in the rule table of the repository; the ones
  here are those of the specification's example, an 8 by 8 grid growing by chunks of 8, at
  10 credits a cell.\<close>

definition demoRules :: rules where
  "demoRules =
     \<lparr>materials =
        [\<lparr>matId = ''wood'', matName = ''Wood'', basePrice = 2, weight = 1\<rparr>,
         \<lparr>matId = ''planks'', matName = ''Planks'', basePrice = 5, weight = 2\<rparr>,
         \<lparr>matId = ''production_machine'', matName = ''Production Machine'',
           basePrice = 100, weight = 20\<rparr>],
      recipes =
        [\<lparr>rcId = ''planks'', inputs = [(''wood'', 2)], outputs = [(''planks'', 1)]\<rparr>,
         \<lparr>rcId = ''charcoal'', inputs = [(''wood'', 3)], outputs = [(''charcoal'', 2)]\<rparr>],
      market = \<lparr>decayRate = 5 / 100, recoveryRate = 2 / 100,
                 minPopularity = 1 / 2, maxPopularity = 2\<rparr>,
      researchCfg = \<lparr>energyCost = 3, discoveryChance = 15 / 100, proximityWeight = 1 / 2\<rparr>,
      machineCfg = \<lparr>itemId = ''production_machine'', baseSpace = 4, baseEnergy = 2\<rparr>,
      generatorTypes =
        [\<lparr>gtId = ''manual_crank'', gtItemId = ''manual_crank'', gtEnergyOutput = 3,
          spaceCost = 1\<rparr>],
      floorSpaceCfg = \<lparr>initialWidth = 8, initialChunkSize = 8, costPerCell = 10\<rparr>,
      inventorySpaceCfg = \<lparr>baseCost = 50, costGrowth = 3 / 2, upgradeAmount = 50\<rparr>\<rparr>"

definition demoState :: state where
  "demoState =
     \<lparr>tick = 0, rngSeed = 12345, credits = 500,
      floorSpace = \<lparr>width = 8, height = 8, placements = []\<rparr>,
      energy = \<lparr>produced = 0, consumed = 0\<rparr>,
      inventorySpace = 100,
      inventory = [(''production_machine'', Number 1)],
      machines = [], generators = [],
      extractionNodes =
        [\<lparr>nId = ''node_wood_1'', resourceType = ''wood'', rate = 2, nActive = True\<rparr>],
      discoveredRecipes = [''planks''], unlockedRecipes = [''planks''],
      research = \<lparr>rActive = False, rEnergyConsumption = 5\<rparr>,
      marketPopularity = []\<rparr>"

subsection \<open>States that are JSON values\<close>

text \<open>A state as it is persisted holds numbers and strings only: no table holds
  \<^verbatim>\<open>NaN\<close>, which JSON cannot write.\<close>

definition jsonTable :: "(string \<times> jsnum) list \<Rightarrow> bool" where
  "jsonTable table \<longleftrightarrow> (\<forall>e \<in> set table. snd e \<noteq> NaN)"

definition jsonState :: "state \<Rightarrow> bool" where
  "jsonState s \<longleftrightarrow>
     jsonTable (inventory s) \<and> (\<forall>m \<in> set (machines s). jsonTable (internalBuffer m))"

text \<open>The demo state after a sale of 0 wood, which it does not hold: the sale is accepted and
  leaves \<^verbatim>\<open>undefined - 0\<close>, that is \<^verbatim>\<open>NaN\<close>, as the quantity of wood. And that state after
  the JSON round trip, which writes the \<^verbatim>\<open>NaN\<close> as \<^verbatim>\<open>null\<close>.\<close>

definition nanState :: state where
  "nanState =
     demoState\<lparr>inventory := [(''production_machine'', Number 1), (''wood'', NaN)],
               marketPopularity := [(''wood'', 2)]\<rparr>"

definition nullState :: state where
  "nullState =
     demoState\<lparr>inventory := [(''production_machine'', Number 1), (''wood'', Null)],
               marketPopularity := [(''wood'', 2)]\<rparr>"

text \<open>The tags the \<^verbatim>\<open>switch\<close> does not list.\<close>

fun unknownTag :: "action \<Rightarrow> bool" where
  "unknownTag (Other tag) = True"
| "unknownTag _ = False"

subsection \<open>Runs\<close>

text \<open>A run of the engine over a list of actions, as \<^verbatim>\<open>dispatch\<close> of the front end drives it:
  the state is replaced by the result's when the result carries no error, and kept
  otherwise; \<open>ids n\<close> is what \<^verbatim>\<open>generateId()\<close> gives the \<open>n\<close>-th call.\<close>

fun replay :: "(nat \<Rightarrow> string) \<Rightarrow> rules \<Rightarrow> state \<Rightarrow> action list \<Rightarrow> state option" where
  "replay ids r s [] = Some s"
| "replay ids r s (a # as) =
     (case engine (ids 0) s r a of
        None \<Rightarrow> None
      | Some (s', None) \<Rightarrow> replay (\<lambda>n. ids (Suc n)) r s' as
      | Some (s', Some e) \<Rightarrow> replay (\<lambda>n. ids (Suc n)) r s as)"

text \<open>A factory with one machine on the planks recipe and one crank, its store full of wood
  and of planks; the same factory two ticks later; a 16 by 8 floor with credits to spend.\<close>

definition stalledState :: state where
  "stalledState =
     demoState\<lparr>inventory := [(''wood'', Number 100), (''planks'', Number 50)],
               machines := [\<lparr>mId = ''m1'', recipeId = Some ''planks'', internalBuffer = [],
                             status = Working, enabled = True, spaceUsed = 4,
                             energyConsumption = 2, mX = 0, mY = 0\<rparr>],
               generators := [\<lparr>gId = ''starter_crank'', gType = ''manual_crank'',
                               energyOutput = 3, gSpaceUsed = 1, gX = 4, gY = 4\<rparr>],
               floorSpace := \<lparr>width = 8, height = 8,
                  placements =
                    [\<lparr>pId = ''m1'', pX = 0, pY = 0, pSize = 2, pType = MachineKind\<rparr>,
                     \<lparr>pId = ''starter_crank'', pX = 4, pY = 4, pSize = 1,
                       pType = GeneratorKind\<rparr>]\<rparr>\<rparr>"

definition fullState :: state where
  "fullState =
     stalledState\<lparr>tick := 2, energy := \<lparr>produced = 3, consumed = 2\<rparr>,
                  machines := [\<lparr>mId = ''m1'', recipeId = Some ''planks'',
                                internalBuffer = [(''wood'', Number 2)],
                                status = Working, enabled = True, spaceUsed = 4,
                                energyConsumption = 2, mX = 0, mY = 0\<rparr>]\<rparr>"

definition wideState :: state where
  "wideState =
     demoState\<lparr>credits := 5000,
               floorSpace := \<lparr>width = 16, height = 8, placements = []\<rparr>\<rparr>"

subsection \<open>Power allocation, as the specification words it\<close>

text \<open>What a machine draws; the mark the deficit walk leaves on a machine that draws; and
  the walk itself, on the machines in the order it visits them: mark machines that draw as
  blocked, subtracting each one's draw from the deficit, until the deficit is 0 or less or
  the machines are exhausted.\<close>

definition powerDraw :: "machine \<Rightarrow> int" where
  "powerDraw m = (if drawsPower m then energyConsumption m else 0)"

definition markBlocked :: "machine \<Rightarrow> machine" where
  "markBlocked m = (if drawsPower m then m\<lparr>status := Blocked\<rparr> else m)"

fun shedFrom :: "int \<Rightarrow> machine list \<Rightarrow> machine list" where
  "shedFrom deficit [] = []"
| "shedFrom deficit (m # ms) =
     (if deficit \<le> 0 then m # ms
      else if drawsPower m then m\<lparr>status := Blocked\<rparr> # shedFrom (deficit - energyConsumption m) ms
      else m # shedFrom deficit ms)"

text \<open>Two machines drawing 2 each on a crank producing 3.\<close>

definition brownoutState :: state where
  "brownoutState =
     demoState\<lparr>machines :=
                 [\<lparr>mId = ''m1'', recipeId = Some ''planks'', internalBuffer = [],
                   status = Working, enabled = True, spaceUsed = 4,
                   energyConsumption = 2, mX = 0, mY = 0\<rparr>,
                  \<lparr>mId = ''m2'', recipeId = Some ''planks'', internalBuffer = [],
                   status = Working, enabled = True, spaceUsed = 4,
                   energyConsumption = 2, mX = 2, mY = 0\<rparr>],
               generators :=
                 [\<lparr>gId = ''starter_crank'', gType = ''manual_crank'',
                   energyOutput = 3, gSpaceUsed = 1, gX = 4, gY = 4\<rparr>]\<rparr>"

subsection \<open>Recipes as multisets, and room for an output\<close>

text \<open>How many of an item a recipe side lists; and whether an output entry has room: the
  quantity held plus the output quantity is within the item's stack bound, the capacity
  divided by the item's weight and rounded down (no bound for an item of weight 0, whose
  quotient is infinite, unless the capacity is negative).\<close>

definition amountOf :: "(string \<times> int) list \<Rightarrow> string \<Rightarrow> int" where
  "amountOf entries k = (case map_of entries k of None \<Rightarrow> 0 | Some n \<Rightarrow> n)"

definition roomFor :: "rules \<Rightarrow> int \<Rightarrow> (string \<times> jsnum) list \<Rightarrow> string \<times> int \<Rightarrow> bool" where
  "roomFor r space iv e =
     (case e of (item, quantity) \<Rightarrow>
        if getItemWeight item r \<noteq> 0
          then getQty iv item + quantity \<le> space div getItemWeight item r
        else 0 \<le> space)"

text \<open>A machine on the planks recipe, its buffer empty.\<close>

definition plankMachine :: machine where
  "plankMachine =
     \<lparr>mId = ''m1'', recipeId = Some ''planks'', internalBuffer = [],
      status = Working, enabled = True, spaceUsed = 4,
      energyConsumption = 2, mX = 0, mY = 0\<rparr>"

subsection \<open>Research, as the specification words it\<close>

text \<open>The state the research phase of a tick starts from; the recipes not yet discovered, in
  the order of the rule table; the number of a recipe's input items held in the inventory
  and the weight it gives the recipe; the recipe at which the running sum of the weights
  first reaches the selection; and the two draws of a tick.\<close>

definition beforeResearch :: "rules \<Rightarrow> state \<Rightarrow> state" where
  "beforeResearch r s = machinePhase r (extractionPhase r (allocatePower (deepClone s)))"

definition undiscovered :: "rules \<Rightarrow> state \<Rightarrow> recipe list" where
  "undiscovered r s = filter (\<lambda>rc. rcId rc \<notin> set (discoveredRecipes s)) (recipes r)"

definition proximity :: "(string \<times> jsnum) list \<Rightarrow> recipe \<Rightarrow> nat" where
  "proximity iv rc = length (filter (\<lambda>item. 0 < getQty iv item) (map fst (inputs rc)))"

definition specWeight :: "rules \<Rightarrow> (string \<times> jsnum) list \<Rightarrow> recipe \<Rightarrow> real" where
  "specWeight r iv rc = 1 + proximityWeight (researchCfg r) * real (proximity iv rc)"

definition firstReaching :: "real \<Rightarrow> (recipe \<times> real) list \<Rightarrow> recipe option" where
  "firstReaching sel ws =
     map_option (\<lambda>i. fst (ws ! i))
       (find (\<lambda>i. sel \<le> sum_list (map snd (take (Suc i) ws))) [0..<length ws])"

definition firstDraw :: "state \<Rightarrow> real" where
  "firstDraw s = snd (rngNext (rngSeed s))"

definition secondDraw :: "state \<Rightarrow> real" where
  "secondDraw s = snd (rngNext (fst (rngNext (rngSeed s))))"

text \<open>Research switched on, nothing discovered, on a seed whose first draw is small.\<close>

definition researchState :: state where
  "researchState =
     demoState\<lparr>rngSeed := 35, discoveredRecipes := [],
               generators := [\<lparr>gId = ''starter_crank'', gType = ''manual_crank'',
                               energyOutput = 3, gSpaceUsed = 1, gX = 4, gY = 4\<rparr>],
               research := \<lparr>rActive = True, rEnergyConsumption = 5\<rparr>\<rparr>"

subsection \<open>Placements, as the specification words them\<close>

text \<open>The standard test on axis-aligned squares: two squares do not overlap when one is
  entirely left of, right of, above or below the other. A placement in bounds; a list of
  placements every two of which are apart; a floor whose placements are in bounds and
  apart. Then the squares as sets of points: the footprint anchored at \<open>(x, y)\<close> with a side,
  and the floor \<open>[0, width) \<times> [0, height)\<close>.\<close>

definition overlaps :: "real \<Rightarrow> real \<Rightarrow> real \<Rightarrow> placement \<Rightarrow> bool" where
  "overlaps x y sz p \<longleftrightarrow>
     \<not> (x + sz \<le> pX p \<or> pX p + pSize p \<le> x \<or> y + sz \<le> pY p \<or> pY p + pSize p \<le> y)"

definition inBounds :: "int \<Rightarrow> int \<Rightarrow> placement \<Rightarrow> bool" where
  "inBounds w h p \<longleftrightarrow>
     0 \<le> pX p \<and> 0 \<le> pY p \<and> pX p + pSize p \<le> real_of_int w \<and> pY p + pSize p \<le> real_of_int h"

fun allSeparate :: "placement list \<Rightarrow> bool" where
  "allSeparate [] = True"
| "allSeparate (p # ps) =
     (list_all (\<lambda>q. \<not> overlaps (pX p) (pY p) (pSize p) q) ps \<and> allSeparate ps)"

definition placementsOk :: "floorSpace \<Rightarrow> bool" where
  "placementsOk fs \<longleftrightarrow>
     list_all (inBounds (width fs) (height fs)) (placements fs) \<and> allSeparate (placements fs)"

definition footprint :: "real \<Rightarrow> real \<Rightarrow> real \<Rightarrow> (real \<times> real) set" where
  "footprint x y sz = {(a, b). x \<le> a \<and> a < x + sz \<and> y \<le> b \<and> b < y + sz}"

definition floorArea :: "int \<Rightarrow> int \<Rightarrow> (real \<times> real) set" where
  "floorArea w h = {(a, b). 0 \<le> a \<and> a < real_of_int w \<and> 0 \<le> b \<and> b < real_of_int h}"

definition footprintOf :: "placement \<Rightarrow> (real \<times> real) set" where
  "footprintOf p = footprint (pX p) (pY p) (pSize p)"

text \<open>The engine adds coordinates and sides as doubles, and a sum of doubles is rounded; on
  integers (below \<open>2 ^ 53\<close>, as every count of the model is) it is exact. A floor is on the grid when its placements have integer coordinates
  and integer sides, and an action is on the grid when the coordinates it carries are
  integers and the structure it builds has an integer side, its space cost being a perfect
  square. The front end sends the cell that was clicked, \<^verbatim>\<open>parseInt(cell.dataset.x)\<close>,
  and \<^verbatim>\<open>getStructureSize\<close> notes that a space cost is always a perfect square. The
  statements about placement are made on the grid.\<close>

definition wholePlacement :: "placement \<Rightarrow> bool" where
  "wholePlacement p \<longleftrightarrow> pX p \<in> \<int> \<and> pY p \<in> \<int> \<and> pSize p \<in> \<int>"

definition onGrid :: "floorSpace \<Rightarrow> bool" where
  "onGrid fs \<longleftrightarrow> list_all wholePlacement (placements fs)"

definition wholeSide :: "int \<Rightarrow> bool" where
  "wholeSide c \<longleftrightarrow> (case getStructureSize c of None \<Rightarrow> True | Some sz \<Rightarrow> sz \<in> \<int>)"

fun wholeCoordinate :: "real option \<Rightarrow> bool" where
  "wholeCoordinate None = True"
| "wholeCoordinate (Some x) = (x \<in> \<int>)"

fun gridAction :: "rules \<Rightarrow> action \<Rightarrow> bool" where
  "gridAction r (AddMachine px py) =
     (wholeCoordinate px \<and> wholeCoordinate py \<and> wholeSide (baseSpace (machineCfg r)))"
| "gridAction r (AddGenerator generatorType px py) =
     (wholeCoordinate px \<and> wholeCoordinate py
      \<and> (case find (\<lambda>g. gtId g = generatorType) (generatorTypes r) of
            None \<Rightarrow> True
          | Some genConfig \<Rightarrow> wholeSide (spaceCost genConfig)))"
| "gridAction r a = True"

text \<open>A generator in the far corner of the 8 by 8 floor; rules whose chunk is negative, and
  the corner floor after an expansion under them; and the corner floor after a machine is
  built at the origin, the floor expanded and a tick run.\<close>

definition cornerPlacement :: placement where
  "cornerPlacement = \<lparr>pId = ''g1'', pX = 6, pY = 6, pSize = 2, pType = GeneratorKind\<rparr>"

definition cornerState :: state where
  "cornerState =
     demoState\<lparr>credits := 5000,
               floorSpace := \<lparr>width = 8, height = 8, placements = [cornerPlacement]\<rparr>\<rparr>"

definition shrinkingRules :: rules where
  "shrinkingRules =
     demoRules\<lparr>floorSpaceCfg :=
                 \<lparr>initialWidth = 8, initialChunkSize = - 8, costPerCell = 10\<rparr>\<rparr>"

definition shrunkState :: state where
  "shrunkState =
     cornerState\<lparr>credits := 4360,
                 floorSpace := \<lparr>width = 0, height = 8, placements = [cornerPlacement]\<rparr>\<rparr>"

definition placedState :: state where
  "placedState =
     cornerState\<lparr>tick := 1, credits := 4360,
                 floorSpace :=
                   \<lparr>width = 16, height = 8,
                    placements =
                      [cornerPlacement,
                       \<lparr>pId = ''k3f9x2a'', pX = 0, pY = 0, pSize = 2, pType = MachineKind\<rparr>]\<rparr>,
                 inventory := [(''wood'', Number 2)],
                 machines :=
                   [\<lparr>mId = ''k3f9x2a'', recipeId = None, internalBuffer = [],
                     status = Idle, enabled = True, spaceUsed = 4,
                     energyConsumption = 2, mX = 0, mY = 0\<rparr>]\<rparr>"

subsection \<open>The completion of the earlier revision\<close>



subsection \<open>The capacity bound\<close>

text \<open>An inventory within capacity: it holds numbers, and every item it lists weighs, at its
  quantity, no more than the capacity. Rule tables whose materials have positive weights,
  and whose recipe outputs are objects (every key once).\<close>

definition fits :: "rules \<Rightarrow> int \<Rightarrow> (string \<times> jsnum) list \<Rightarrow> bool" where
  "fits r space iv \<longleftrightarrow>
     jsonTable iv
     \<and> (\<forall>item \<in> fst ` set iv. getQty iv item * getItemWeight item r \<le> space)"

definition withinCapacity :: "rules \<Rightarrow> state \<Rightarrow> bool" where
  "withinCapacity r s \<longleftrightarrow> fits r (inventorySpace s) (inventory s)"

definition positiveWeights :: "rules \<Rightarrow> bool" where
  "positiveWeights r \<longleftrightarrow> (\<forall>m \<in> set (materials r). 0 < weight m)"

definition objectOutputs :: "rules \<Rightarrow> bool" where
  "objectOutputs r \<longleftrightarrow> (\<forall>rc \<in> set (recipes r). distinct (map fst (outputs rc)))"

subsection \<open>Sales whose arithmetic is exact\<close>






section \<open>Properties\<close>

subsection \<open>Cloning\<close>

lemma cloneTable_json: "jsonTable t \<Longrightarrow> cloneTable t = t"
  unfolding jsonTable_def cloneTable_def
proof (induction t)
  case Nil
  then show ?case by simp
next
  case (Cons e t)
  obtain k v where e: "e = (k, v)" by (cases e)
  with Cons.prems have "v \<noteq> NaN" by simp
  then have "cloneNum v = v" by (cases v) simp_all
  with Cons e show ?case by simp
qed

lemma deepClone_json: "jsonState s \<Longrightarrow> deepClone s = s"
  unfolding jsonState_def deepClone_def
  by (simp add: cloneTable_json map_idI)

subsection \<open>Rejected commands\<close>

text \<open>Every handler returns its clone of the state, untouched, with an error.\<close>

lemma handlers_error:
  "addMachine newId s r px py = (s', Some e) \<Longrightarrow> s' = deepClone s"
  "removeMachine s r mid = (s', Some e) \<Longrightarrow> s' = deepClone s"
  "assignRecipe s r mid rid = (s', Some e) \<Longrightarrow> s' = deepClone s"
  "addGenerator newId s r gt px py = (s', Some e) \<Longrightarrow> s' = deepClone s"
  "removeGenerator s r gid = (s', Some e) \<Longrightarrow> s' = deepClone s"
  "buyFloorSpace s r = Some (s', Some e) \<Longrightarrow> s' = deepClone s"
  "sellGoods s r item q = (s', Some e) \<Longrightarrow> s' = deepClone s"
  "toggleResearch s r b = (s', Some e) \<Longrightarrow> s' = deepClone s"
  "unlockRecipe s r rid' = (s', Some e) \<Longrightarrow> s' = deepClone s"
  "unblockMachine s r mid = (s', Some e) \<Longrightarrow> s' = deepClone s"
  "toggleMachine s r mid = (s', Some e) \<Longrightarrow> s' = deepClone s"
  "buyInventorySpace s r = (s', Some e) \<Longrightarrow> s' = deepClone s"
  by (auto simp: addMachine_def removeMachine_def assignRecipe_def addGenerator_def
      removeGenerator_def buyFloorSpace_def sellGoods_def toggleResearch_def unlockRecipe_def
      unblockMachine_def toggleMachine_def buyInventorySpace_def Let_def
      split: option.splits if_splits prod.splits)

text \<open>
  C2, amended. For every state, rule table and action, unknown tags included: when the
  engine's result carries an error, the state it returns is the JSON round trip of the input
  state (the input state itself for an unknown tag), with no effect of the command applied;
  it is the input state, equal in every field, whenever no quantity of the input state is
  \<^verbatim>\<open>NaN\<close> (\<open>jsonState\<close>).
\<close>

theorem engine_error_state_unchanged:
  assumes "engine newId s r a = Some (s', Some e)"
  shows "s' = (if unknownTag a then s else deepClone s) \<and> (jsonState s \<longrightarrow> s' = s)"
proof -
  have "s' = (if unknownTag a then s else deepClone s)"
    using assms
    by (cases a) (auto simp: simulateTick_def dest: handlers_error split: prod.splits)
  then show ?thesis by (auto simp: deepClone_json)
qed

theorem engine_error_state_unchanged_witness:
  "jsonState demoState
   \<and> engine ''k3f9x2a'' demoState demoRules (SellGoods ''wood'' 5)
       = Some (demoState, Some NotEnoughItems)"
proof -
  have j: "jsonState demoState"
    by (simp add: jsonState_def jsonTable_def demoState_def)
  have e: "engine ''k3f9x2a'' demoState demoRules (SellGoods ''wood'' 5)
             = Some (deepClone demoState, Some NotEnoughItems)"
    by (simp add: sellGoods_def deepClone_def cloneTable_def getQty_def demoState_def)
  from engine_error_state_unchanged [OF e] j have "deepClone demoState = demoState"
    by simp
  with j e show ?thesis by simp
qed

text \<open>
  C2 as stated fails. A sale of 0 wood, which the demo state does not hold, is accepted and
  leaves \<^verbatim>\<open>NaN\<close> as the quantity of wood. The sale of 5 wood that follows is rejected, not
  enough being held, and the state returned with the error is not the state the command was
  given: its quantity of wood is \<^verbatim>\<open>null\<close>.
\<close>

theorem rejected_command_rewrites_NaN:
  "engine [] demoState demoRules (SellGoods ''wood'' 0) = Some (nanState, None)
   \<and> engine [] nanState demoRules (SellGoods ''wood'' 5) = Some (nullState, Some NotEnoughItems)
   \<and> nullState \<noteq> nanState"
  by (simp add: sellGoods_def deepClone_def cloneTable_def getQty_def subAndPrune_def
      popularityOr_def nanState_def nullState_def demoState_def demoRules_def)

subsection \<open>Evaluating the engine\<close>

lemmas tick_defs =
  simulateTick_def deepClone_def cloneTable_def allocatePower_def calculateEnergy_def
  drawsPower_def hasRecipe_def extractionPhase_def extractNode_def getQty_def getMaxStack_def
  getItemWeight_def machinePhase_def processMachine_def pullPhase_def pullItem_def
  completion_def researchPhase_def marketPhase_def

lemmas demo_defs = demoState_def demoRules_def

text \<open>
  C1 (the code does otherwise). Two runs from the same state, seed 12345, with the same one
  action, a machine built at (0, 0): \<^verbatim>\<open>generateId()\<close> draws from \<^verbatim>\<open>Math.random()\<close>, not
  from the seeded generator, and the two runs end in different states as soon as it returns
  different identifiers.
\<close>

theorem generateId_breaks_replay:
  "replay (\<lambda>n. ''k3f9x2a'') demoRules demoState [AddMachine (Some 0) (Some 0)]
     \<noteq> replay (\<lambda>n. ''q80zj1m'') demoRules demoState [AddMachine (Some 0) (Some 0)]"
  by (simp add: demo_defs addMachine_def deepClone_def cloneTable_def getStructureSize_def
      canPlaceAt_def isWithinBounds_def getQty_def subAndPrune_def)

text \<open>
  C3 (the code does otherwise). The machine pulls 2 wood into its buffer and stalls, the
  planks being at their bound of 50; the node refills the wood to its bound of 100; every
  item is within capacity. Removing the machine, or clearing its recipe, then returns the
  2 buffered wood with no capacity check: 102 wood of weight 1 in a store of 100.
\<close>

theorem returned_buffer_exceeds_capacity:
  "replay (\<lambda>n. []) demoRules stalledState [Simulate, Simulate] = Some fullState
   \<and> getQty (inventory fullState) ''wood'' * getItemWeight ''wood'' demoRules = 100
   \<and> getQty (inventory fullState) ''planks'' * getItemWeight ''planks'' demoRules = 100
   \<and> inventorySpace fullState = 100
   \<and> map_option (\<lambda>(s, e). (getQty (inventory s) ''wood'' * getItemWeight ''wood'' demoRules,
                              inventorySpace s, e))
         (engine [] fullState demoRules (RemoveMachine ''m1'')) = Some (102, 100, None)
   \<and> map_option (\<lambda>(s, e). (getQty (inventory s) ''wood'' * getItemWeight ''wood'' demoRules,
                              inventorySpace s, e))
         (engine [] fullState demoRules (AssignRecipe ''m1'' None)) = Some (102, 100, None)"
  by (simp add: tick_defs demo_defs stalledState_def fullState_def removeMachine_def
      assignRecipe_def recipeError_def returnItem_def removePlacement_def splice1_def)

text \<open>
  C7 (the code does otherwise). On a 16 by 8 floor the expansion grows the height by the
  chunk of 8, which adds 16 * 8 = 128 cells, and debits \<open>chunkSize * chunkSize\<close> = 64 cells at
  10 credits: 640, not 1280.
\<close>

theorem expansion_charges_chunk_square:
  "map_option (\<lambda>(s, e). (width (floorSpace s), height (floorSpace s),
                           credits wideState - credits s, e))
     (engine [] wideState demoRules BuyFloorSpace) = Some (16, 16, 640, None)
   \<and> (16 * 16 - width (floorSpace wideState) * height (floorSpace wideState))
        * costPerCell (floorSpaceCfg demoRules) = 1280"
  by (simp add: wideState_def demo_defs buyFloorSpace_def getNextExpansionChunk_def
      findTarget.simps deepClone_def cloneTable_def)

text \<open>The dimensions and the credits along four expansions of the 8 by 8 floor.\<close>

lemma expansion_sequence:
  "map (\<lambda>n. map_option (\<lambda>s. (width (floorSpace s), height (floorSpace s), credits s))
              (replay (\<lambda>n. []) demoRules (demoState\<lparr>credits := 10000\<rparr>)
                 (replicate n BuyFloorSpace)))
     [0, 1, 2, 3, 4]
   = [Some (8, 8, 10000), Some (16, 8, 9360), Some (16, 16, 8720), Some (32, 16, 6160),
      Some (32, 32, 3600)]"
  by (simp add: demo_defs buyFloorSpace_def getNextExpansionChunk_def findTarget.simps
      deepClone_def cloneTable_def numeral_eq_Suc)

subsection \<open>Tables\<close>

lemma map_of_cloneTable: "map_of (cloneTable t) k = map_option cloneNum (map_of t k)"
  unfolding cloneTable_def by (induction t) auto

lemma orZero_cloneNum: "orZero (map_option cloneNum v) = orZero v"
proof (cases v)
  case None
  then show ?thesis by simp
next
  case (Some n)
  then show ?thesis by (cases n) simp_all
qed

lemma getQty_cloneTable: "getQty (cloneTable t) k = getQty t k"
  by (simp add: getQty_def map_of_cloneTable orZero_cloneNum)

lemma deepClone_fields:
  "inventory (deepClone s) = cloneTable (inventory s)"
  "credits (deepClone s) = credits s"
  "marketPopularity (deepClone s) = marketPopularity s"
  "floorSpace (deepClone s) = floorSpace s"
  "inventorySpace (deepClone s) = inventorySpace s"
  "discoveredRecipes (deepClone s) = discoveredRecipes s"
  "unlockedRecipes (deepClone s) = unlockedRecipes s"
  "generators (deepClone s) = generators s"
  "research (deepClone s) = research s"
  "energy (deepClone s) = energy s"
  "rngSeed (deepClone s) = rngSeed s"
  "tick (deepClone s) = tick s"
  "extractionNodes (deepClone s) = extractionNodes s"
  by (simp_all add: deepClone_def)

lemma getQty_subAndPrune_same:
  assumes "0 \<le> n" and "n \<le> getQty t k"
  shows "getQty (subAndPrune t k n) k = getQty t k - n"
proof (cases "map_of t k")
  case None
  with assms show ?thesis
    by (simp add: getQty_def subAndPrune_def update_conv')
next
  case (Some v)
  with assms show ?thesis
    by (cases v) (auto simp: getQty_def subAndPrune_def update_conv' delete_conv')
qed

lemma getQty_subAndPrune_other:
  "k' \<noteq> k \<Longrightarrow> getQty (subAndPrune t k n) k' = getQty t k'"
  by (simp add: getQty_def subAndPrune_def Let_def update_conv' delete_conv')

subsection \<open>Selling\<close>



text \<open>
  C10. For an item of the materials table that the inventory does not hold, a sale of
  quantity 0 is accepted with no error, leaves the credits as they were, and sets the
  popularity of an item that was untracked to the configured maximum (the maximum being no
  less than the configured minimum, below which no multiplier is left).
\<close>

theorem sell_zero_of_absent_item:
  assumes "map_of (inventory s) item = None"
    and "find (\<lambda>m. matId m = item) (materials r) = Some mat"
    and "minPopularity (market r) \<le> maxPopularity (market r)"
  shows "\<exists>s'. engine newId s r (SellGoods item 0) = Some (s', None)
           \<and> credits s' = credits s
           \<and> (map_of (marketPopularity s) item = None
                \<longrightarrow> map_of (marketPopularity s') item = Some (maxPopularity (market r)))"
proof -
  from assms(1) have "getQty (inventory s) item = 0"
    by (simp add: getQty_def)
  with assms(2,3) show ?thesis
    by (simp add: sellGoods_def deepClone_fields getQty_cloneTable update_conv'
        popularityOr_def Let_def)
qed

theorem sell_zero_of_absent_item_witness:
  "\<exists>s'. engine [] demoState demoRules (SellGoods ''wood'' 0) = Some (s', None)
        \<and> credits s' = 500
        \<and> map_of (marketPopularity s') ''wood'' = Some 2"
  using sell_zero_of_absent_item [of demoState "''wood''" demoRules
      "\<lparr>matId = ''wood'', matName = ''Wood'', basePrice = 2, weight = 1\<rparr>" "[]"]
  by (auto simp: demoState_def demoRules_def)

text \<open>That sale leaves the entry \<^verbatim>\<open>NaN\<close> in the inventory (\<^verbatim>\<open>undefined - 0\<close>).\<close>

lemma sell_zero_of_absent_item_inventory:
  assumes "map_of (inventory s) item = None"
    and "find (\<lambda>m. matId m = item) (materials r) = Some mat"
  shows "map_of (inventory (fst (sellGoods s r item 0))) item = Some NaN"
  using assms
  by (simp add: sellGoods_def deepClone_fields getQty_cloneTable getQty_def update_conv'
      subAndPrune_def map_of_cloneTable)

subsection \<open>Power allocation\<close>

lemma foldl_consumed:
  "foldl (\<lambda>c m. if drawsPower m then c + energyConsumption m else c) acc ms
     = acc + sum_list (map powerDraw ms)"
  by (induction ms arbitrary: acc) (simp_all add: powerDraw_def)

lemma foldl_produced:
  "foldl (\<lambda>sum g. sum + energyOutput g) acc gs = acc + sum_list (map energyOutput gs)"
  by (induction gs arbitrary: acc) simp_all

lemma calculateEnergy_sums:
  "produced (calculateEnergy s) = sum_list (map energyOutput (generators s))"
  "consumed (calculateEnergy s) = sum_list (map powerDraw (machines s))"
  by (simp_all add: calculateEnergy_def foldl_consumed foldl_produced)

lemma calculateEnergy_energy_update [simp]:
  "calculateEnergy (s\<lparr>energy := e\<rparr>) = calculateEnergy s"
  by (simp add: calculateEnergy_def)

lemma powerDraw_blocked [simp]: "powerDraw (m\<lparr>status := Blocked\<rparr>) = 0"
  by (simp add: powerDraw_def drawsPower_def)

lemma powerDraw_cases:
  "drawsPower m \<Longrightarrow> powerDraw m = energyConsumption m"
  "\<not> drawsPower m \<Longrightarrow> powerDraw m = 0"
  by (simp_all add: powerDraw_def)

lemma markBlocked_cases:
  "drawsPower m \<Longrightarrow> markBlocked m = m\<lparr>status := Blocked\<rparr>"
  "\<not> drawsPower m \<Longrightarrow> markBlocked m = m"
  by (simp_all add: markBlocked_def)

lemma shedFrom_effect:
  "shedFrom d ms = map markBlocked ms
   \<or> sum_list (map powerDraw (shedFrom d ms)) \<le> sum_list (map powerDraw ms) - d"
proof (induction ms arbitrary: d)
  case Nil
  then show ?case by simp
next
  case (Cons m ms)
  show ?case
  proof (cases "d \<le> 0")
    case True
    then show ?thesis by simp
  next
    case False
    show ?thesis
    proof (cases "drawsPower m")
      case True
      with False Cons.IH [of "d - energyConsumption m"] show ?thesis
        by (auto simp: markBlocked_cases powerDraw_cases)
    next
      case no: False
      with False Cons.IH [of d] show ?thesis
        by (auto simp: markBlocked_cases powerDraw_cases)
    qed
  qed
qed

lemma blockLoop_shedFrom:
  "n \<le> length ms \<Longrightarrow> blockLoop n d ms = rev (shedFrom d (rev (take n ms))) @ drop n ms"
proof (induction n arbitrary: d ms)
  case 0
  then show ?case by simp
next
  case (Suc i)
  then have i: "i < length ms" by simp
  then have tk: "take (Suc i) ms = take i ms @ [ms ! i]"
    by (simp add: take_Suc_conv_app_nth)
  show ?case
  proof (cases "d > 0")
    case False
    then show ?thesis
      using id_take_nth_drop [OF i] by (simp add: tk)
  next
    case True
    show ?thesis
    proof (cases "drawsPower (ms ! i)")
      case dp: True
      let ?m' = "(ms ! i)\<lparr>status := Blocked\<rparr>"
      have "blockLoop i (d - energyConsumption (ms ! i)) (ms[i := ?m'])
              = rev (shedFrom (d - energyConsumption (ms ! i)) (rev (take i (ms[i := ?m']))))
                  @ drop i (ms[i := ?m'])"
        using Suc.IH [of "ms[i := ?m']" "d - energyConsumption (ms ! i)"] i by simp
      moreover have "drop i (ms[i := ?m']) = ?m' # drop (Suc i) ms"
        using i by (simp add: Cons_nth_drop_Suc [symmetric] upd_conv_take_nth_drop)
      ultimately show ?thesis
        using True dp by (simp add: tk Let_def)
    next
      case ndp: False
      have "blockLoop i d ms = rev (shedFrom d (rev (take i ms))) @ drop i ms"
        using Suc.IH [of ms d] i by simp
      moreover have "drop i ms = ms ! i # drop (Suc i) ms"
        using i by (simp add: Cons_nth_drop_Suc)
      ultimately show ?thesis
        using True ndp by (simp add: tk Let_def)
    qed
  qed
qed

lemma sum_powerDraw_rev: "sum_list (map powerDraw (rev ms)) = sum_list (map powerDraw ms)"
  by (simp add: rev_map [symmetric])

text \<open>
  C5. After the power-allocation phase of a tick, \<open>consumed \<le> produced\<close> holds in the
  resulting state (whose energy snapshot is the recomputed one), or every machine that was
  enabled, had a recipe and was not blocked has been marked blocked. The machines are those
  the deficit walk leaves: from the last machine of the list to the first, each machine that
  draws is blocked and its draw subtracted from the deficit, until the deficit is 0 or less
  or the machines are exhausted.
\<close>

theorem power_allocation_invariant:
  fixes s :: state
  defines "e0 \<equiv> calculateEnergy s" and "s' \<equiv> allocatePower s"
  shows "(consumed (energy s') \<le> produced (energy s')
            \<or> machines s' = map markBlocked (machines s))
       \<and> machines s' = (if consumed e0 > produced e0
                          then rev (shedFrom (consumed e0 - produced e0) (rev (machines s)))
                          else machines s)
       \<and> energy s' = calculateEnergy s'"
proof (cases "consumed e0 > produced e0")
  case False
  then show ?thesis
    by (simp add: s'_def e0_def allocatePower_def Let_def calculateEnergy_def)
next
  case True
  let ?d = "consumed e0 - produced e0"
  let ?ms' = "rev (shedFrom ?d (rev (machines s)))"
  have ms': "machines s' = ?ms'"
    using True by (simp add: s'_def e0_def allocatePower_def Let_def blockLoop_shedFrom)
  have en: "energy s' = calculateEnergy s'"
    using True by (simp add: s'_def e0_def allocatePower_def Let_def calculateEnergy_def)
  have gens: "generators s' = generators s"
    using True by (simp add: s'_def e0_def allocatePower_def Let_def)
  have "shedFrom ?d (rev (machines s)) = map markBlocked (rev (machines s))
        \<or> sum_list (map powerDraw (shedFrom ?d (rev (machines s))))
             \<le> sum_list (map powerDraw (rev (machines s))) - ?d"
    by (rule shedFrom_effect)
  then have "?ms' = map markBlocked (machines s)
        \<or> sum_list (map powerDraw ?ms') \<le> produced e0"
    by (auto simp: rev_map sum_powerDraw_rev e0_def calculateEnergy_sums)
  then have "machines s' = map markBlocked (machines s)
        \<or> consumed (energy s') \<le> produced (energy s')"
    by (simp add: en calculateEnergy_sums ms' gens e0_def)
  with ms' en True show ?thesis by auto
qed


theorem power_allocation_invariant_witness:
  "consumed (energy (allocatePower brownoutState)) = 2
   \<and> produced (energy (allocatePower brownoutState)) = 3
   \<and> map status (machines (allocatePower brownoutState)) = [Working, Blocked]
   \<and> machines (allocatePower brownoutState)
        = rev (shedFrom 1 (rev (machines brownoutState)))"
  using power_allocation_invariant [of brownoutState]
  by (simp add: brownoutState_def demoState_def allocatePower_def calculateEnergy_def
      drawsPower_def hasRecipe_def numeral_2_eq_2)

subsection \<open>Recipe completion\<close>

lemma bufferComplete_iff:
  "bufferComplete buf ins \<longleftrightarrow> (\<forall>e \<in> set ins. snd e \<le> getQty buf (fst e))"
  by (induction buf ins rule: bufferComplete.induct) auto

lemma roomFor_test:
  "roomFor r space iv (item, quantity)
     \<longleftrightarrow> \<not> spaceLeftBelow (getMaxStack item space r) (getQty iv item) quantity"
  by (auto simp: roomFor_def getMaxStack_def Let_def)

lemma canProduce_iff:
  "canProduce r space iv outs \<longleftrightarrow> (\<forall>e \<in> set outs. roomFor r space iv e)"
  by (induction r space iv outs rule: canProduce.induct) (simp_all add: roomFor_test)

lemma roomFor_weighted:
  assumes "getItemWeight item r > 0"
  shows "roomFor r space iv (item, quantity)
           \<longleftrightarrow> getQty iv item + quantity \<le> space div getItemWeight item r"
  using assms by (simp add: roomFor_def)

lemma amountOf_Cons:
  "amountOf ((k0, n0) # rest) k = (if k = k0 then n0 else amountOf rest k)"
  by (simp add: amountOf_def)

lemma amountOf_absent: "k \<notin> fst ` set entries \<Longrightarrow> amountOf entries k = 0"
  by (simp add: amountOf_def map_of_eq_None_iff [THEN iffD2])

lemma consumeItem_pair: "consumeItem buf (k0, n0) = subAndPrune buf k0 n0"
  by (simp add: consumeItem_def)

lemma getQty_consume:
  assumes "distinct (map fst ins)"
    and "\<forall>e \<in> set ins. 0 \<le> snd e \<and> snd e \<le> getQty buf (fst e)"
  shows "getQty (foldl consumeItem buf ins) k = getQty buf k - amountOf ins k"
  using assms
proof (induction ins arbitrary: buf)
  case Nil
  then show ?case by (simp add: amountOf_def)
next
  case (Cons e rest)
  obtain k0 n0 where e: "e = (k0, n0)" by (cases e)
  let ?buf1 = "subAndPrune buf k0 n0"
  from Cons.prems e have n0: "0 \<le> n0" "n0 \<le> getQty buf k0" by auto
  from Cons.prems e have fresh: "k0 \<notin> fst ` set rest" by auto
  have same: "getQty ?buf1 k0 = getQty buf k0 - n0"
    using n0 by (rule getQty_subAndPrune_same)
  have other: "\<And>k'. k' \<noteq> k0 \<Longrightarrow> getQty ?buf1 k' = getQty buf k'"
    by (rule getQty_subAndPrune_other)
  have "\<forall>e' \<in> set rest. 0 \<le> snd e' \<and> snd e' \<le> getQty ?buf1 (fst e')"
  proof
    fix e' assume e': "e' \<in> set rest"
    with fresh have "fst e' \<noteq> k0" by force
    with Cons.prems e' other show "0 \<le> snd e' \<and> snd e' \<le> getQty ?buf1 (fst e')" by simp
  qed
  with Cons.IH [of ?buf1] Cons.prems
  have IH: "getQty (foldl consumeItem ?buf1 rest) k = getQty ?buf1 k - amountOf rest k"
    by simp
  show ?case
  proof (cases "k = k0")
    case True
    with IH same fresh show ?thesis
      by (simp add: e consumeItem_pair amountOf_Cons amountOf_absent)
  next
    case False
    with IH other show ?thesis
      by (simp add: e consumeItem_pair amountOf_Cons)
  qed
qed

lemma getQty_addOutput:
  "getQty (addOutput iv (k0, q0)) k = (if k = k0 then getQty iv k0 + q0 else getQty iv k)"
  by (simp add: addOutput_def getQty_def update_conv')

lemma getQty_produce:
  assumes "distinct (map fst outs)"
  shows "getQty (foldl addOutput iv outs) k = getQty iv k + amountOf outs k"
  using assms
proof (induction outs arbitrary: iv)
  case Nil
  then show ?case by (simp add: amountOf_def)
next
  case (Cons e rest)
  obtain k0 q0 where e: "e = (k0, q0)" by (cases e)
  from Cons.prems e have fresh: "k0 \<notin> fst ` set rest" by auto
  from Cons.IH [of "addOutput iv (k0, q0)"] Cons.prems
  have IH: "getQty (foldl addOutput (addOutput iv (k0, q0)) rest) k
              = getQty (addOutput iv (k0, q0)) k + amountOf rest k"
    by simp
  show ?case
    using IH fresh by (simp add: e getQty_addOutput amountOf_Cons amountOf_absent)
qed

lemma pullItem_noop:
  "snd e \<le> getQty buf (fst e) \<Longrightarrow> pullItem (buf, iv) e = (buf, iv)"
  by (cases e) (simp add: pullItem_def)

lemma pullPhase_noop:
  "bufferComplete buf ins \<Longrightarrow> pullPhase ins (buf, iv) = (buf, iv)"
  unfolding pullPhase_def bufferComplete_iff
  by (induction ins) (simp_all add: pullItem_noop)

text \<open>
  The completion of the revision with grid placement conserves materials. A machine that
  the tick processes (enabled, with a recipe of the rule table that is unlocked, not blocked)
  and whose buffer, as the pull phase leaves it, meets every input requirement: if every
  output item has room for its full output quantity, the completion debits exactly the
  recipe's inputs from the buffer and credits exactly its outputs to the inventory;
  otherwise the buffer and the inventory stay as the pull phase left them, and nothing is
  credited. When the buffer met the requirements before the pull, the pull phase has
  changed neither. A recipe side is a JavaScript object (every key once) of counts.
\<close>

theorem completion_conserves:
  assumes keys: "distinct (map fst (inputs rc))" "distinct (map fst (outputs rc))"
    and counts: "\<forall>e \<in> set (inputs rc). 0 \<le> snd e"
    and runs: "enabled m" "hasRecipe m" "status m \<noteq> Blocked"
      "find (\<lambda>rc. Some (rcId rc) = recipeId m) (recipes r) = Some rc"
      "rcId rc \<in> set unlocked"
    and pulled: "pullPhase (inputs rc) (internalBuffer m, iv) = (buf, iv1)"
    and meets: "\<forall>e \<in> set (inputs rc). snd e \<le> getQty buf (fst e)"
    and step: "processMachine r space unlocked iv m = (m', iv')"
  shows "(if \<forall>e \<in> set (outputs rc). roomFor r space iv1 e
          then (\<forall>k. getQty (internalBuffer m') k = getQty buf k - amountOf (inputs rc) k)
             \<and> (\<forall>k. getQty iv' k = getQty iv1 k + amountOf (outputs rc) k)
          else internalBuffer m' = buf \<and> iv' = iv1)
       \<and> ((\<forall>e \<in> set (inputs rc). snd e \<le> getQty (internalBuffer m) (fst e))
            \<longrightarrow> buf = internalBuffer m \<and> iv1 = iv)"
proof -
  have early: "buf = internalBuffer m \<and> iv1 = iv"
    if "\<forall>e \<in> set (inputs rc). snd e \<le> getQty (internalBuffer m) (fst e)"
    using that pulled pullPhase_noop [of "internalBuffer m" "inputs rc" iv]
    by (simp add: bufferComplete_iff)
  have bc: "bufferComplete buf (inputs rc)"
    using meets by (simp add: bufferComplete_iff)
  have res: "(m', iv') =
      (case completion r space rc (buf, iv1) of
         (b, i) \<Rightarrow> (m\<lparr>status := Working, internalBuffer := b\<rparr>, i))"
    using runs pulled step by (simp add: processMachine_def)
  have main: "if \<forall>e \<in> set (outputs rc). roomFor r space iv1 e
          then (\<forall>k. getQty (internalBuffer m') k = getQty buf k - amountOf (inputs rc) k)
             \<and> (\<forall>k. getQty iv' k = getQty iv1 k + amountOf (outputs rc) k)
          else internalBuffer m' = buf \<and> iv' = iv1"
  proof (cases "\<forall>e \<in> set (outputs rc). roomFor r space iv1 e")
    case True
    then have cp: "canProduce r space iv1 (outputs rc)"
      by (simp add: canProduce_iff)
    from res bc cp have m': "internalBuffer m' = foldl consumeItem buf (inputs rc)"
      and iv': "iv' = foldl addOutput iv1 (outputs rc)"
      by (simp_all add: completion_def)
    from counts meets
    have "\<forall>e \<in> set (inputs rc). 0 \<le> snd e \<and> snd e \<le> getQty buf (fst e)" by simp
    with keys m' iv' True show ?thesis
      by (simp add: getQty_consume getQty_produce)
  next
    case False
    then have "\<not> canProduce r space iv1 (outputs rc)"
      by (simp add: canProduce_iff)
    with res bc have "internalBuffer m' = buf \<and> iv' = iv1"
      by (simp add: completion_def)
    with False show ?thesis by (simp only: if_False)
  qed
  from main early show ?thesis by blast
qed


theorem completion_conserves_witness:
  "pullPhase [(''wood'', 2)] ([], [(''wood'', Number 2)])
     = ([(''wood'', Number 2)], [(''wood'', Number 0)])
   \<and> processMachine demoRules 100 [''planks''] [(''wood'', Number 2)] plankMachine
     = (plankMachine\<lparr>status := Working, internalBuffer := []\<rparr>,
        [(''wood'', Number 0), (''planks'', Number 1)])
   \<and> (\<forall>k. getQty [] k = getQty [(''wood'', Number 2)] k - amountOf [(''wood'', 2)] k)
   \<and> (\<forall>k. getQty [(''wood'', Number 0), (''planks'', Number 1)] k
            = getQty [(''wood'', Number 0)] k + amountOf [(''planks'', 1)] k)"
proof -
  let ?rc = "\<lparr>rcId = ''planks'', inputs = [(''wood'', 2)], outputs = [(''planks'', 1)]\<rparr>"
  have p: "pullPhase (inputs ?rc) (internalBuffer plankMachine, [(''wood'', Number 2)])
             = ([(''wood'', Number 2)], [(''wood'', Number 0)])"
    by (simp add: pullPhase_def pullItem_def getQty_def plankMachine_def)
  have f: "find (\<lambda>rc. Some (rcId rc) = recipeId plankMachine) (recipes demoRules) = Some ?rc"
    by (simp add: plankMachine_def demoRules_def)
  have st: "processMachine demoRules 100 [''planks''] [(''wood'', Number 2)] plankMachine
     = (plankMachine\<lparr>status := Working, internalBuffer := []\<rparr>,
        [(''wood'', Number 0), (''planks'', Number 1)])"
    by (simp add: processMachine_def plankMachine_def demoRules_def hasRecipe_def
        pullPhase_def pullItem_def completion_def getQty_def getMaxStack_def getItemWeight_def
        consumeItem_def subAndPrune_def addOutput_def)
  have room: "\<forall>e \<in> set (outputs ?rc). roomFor demoRules 100 [(''wood'', Number 0)] e"
    by (simp add: roomFor_def getItemWeight_def demoRules_def getQty_def)
  have "if \<forall>e \<in> set (outputs ?rc). roomFor demoRules 100 [(''wood'', Number 0)] e
        then (\<forall>k. getQty (internalBuffer (plankMachine\<lparr>status := Working, internalBuffer := []\<rparr>)) k
                    = getQty [(''wood'', Number 2)] k - amountOf (inputs ?rc) k)
           \<and> (\<forall>k. getQty [(''wood'', Number 0), (''planks'', Number 1)] k
                    = getQty [(''wood'', Number 0)] k + amountOf (outputs ?rc) k)
        else internalBuffer (plankMachine\<lparr>status := Working, internalBuffer := []\<rparr>)
               = [(''wood'', Number 2)]
           \<and> [(''wood'', Number 0), (''planks'', Number 1)] = [(''wood'', Number 0)]"
    by (rule completion_conserves [OF _ _ _ _ _ _ f _ p _ st, THEN conjunct1])
       (simp_all add: plankMachine_def hasRecipe_def getQty_def)
  moreover have "internalBuffer plankMachine = []"
    by (simp add: plankMachine_def)
  ultimately show ?thesis
    using room p st by simp
qed

subsection \<open>Research\<close>

lemma foldl_weight:
  "foldl (\<lambda>w item. if getQty iv item > 0 then w + pw else w) acc ks
     = acc + pw * real (length (filter (\<lambda>item. 0 < getQty iv item) ks))"
  by (induction ks arbitrary: acc) (simp_all add: algebra_simps)

lemma recipeWeight_spec: "recipeWeight r iv rc = specWeight r iv rc"
  by (simp add: recipeWeight_def specWeight_def proximity_def foldl_weight)

lemma foldl_total:
  "foldl (\<lambda>sum rw. sum + snd rw) (acc :: real) ws = acc + sum_list (map snd ws)"
  by (induction ws arbitrary: acc) simp_all

lemma find_map_index: "find P (map f xs) = map_option f (find (P \<circ> f) xs)"
  by (induction xs) simp_all

lemma selectRecipe_firstReaching: "selectRecipe sel ws = firstReaching sel ws"
proof (induction ws arbitrary: sel)
  case Nil
  then show ?case by (simp add: firstReaching_def)
next
  case (Cons e rest)
  obtain rc0 w0 where e: "e = (rc0, w0)" by (cases e)
  have upt: "[0..<Suc (length rest)] = 0 # map Suc [0..<length rest]"
    by (simp add: upt_conv_Cons map_Suc_upt del: upt_Suc)
  show ?case
  proof (cases "sel - w0 \<le> 0")
    case True
    then show ?thesis
      by (simp add: e firstReaching_def upt del: upt_Suc)
  next
    case False
    have "find (\<lambda>i. sel \<le> sum_list (map snd (take (Suc i) (e # rest)))) (map Suc [0..<length rest])
            = map_option Suc
                (find (\<lambda>i. sel - w0 \<le> sum_list (map snd (take (Suc i) rest))) [0..<length rest])"
      unfolding find_map_index
      by (rule arg_cong [where f = "map_option Suc"], rule find_cong) (auto simp: e)
    with False Cons.IH [of "sel - w0"] show ?thesis
      by (simp add: e firstReaching_def upt option.map_comp comp_def del: upt_Suc)
  qed
qed

lemma phase_fields:
  "discoveredRecipes (allocatePower s) = discoveredRecipes s"
  "research (allocatePower s) = research s"
  "discoveredRecipes (extractionPhase r s) = discoveredRecipes s"
  "research (extractionPhase r s) = research s"
  "energy (extractionPhase r s) = energy s"
  "discoveredRecipes (machinePhase r s) = discoveredRecipes s"
  "research (machinePhase r s) = research s"
  "energy (machinePhase r s) = energy s"
  "discoveredRecipes (marketPhase r s) = discoveredRecipes s"
  "energy (marketPhase r s) = energy s"
  by (simp_all add: allocatePower_def extractionPhase_def machinePhase_def marketPhase_def
      Let_def split: prod.splits)

lemma beforeResearch_fields:
  "discoveredRecipes (beforeResearch r s) = discoveredRecipes s"
  "research (beforeResearch r s) = research s"
  by (simp_all add: beforeResearch_def phase_fields deepClone_fields)

lemma researchPhase_energy: "energy (fst (researchPhase r seed s)) = energy s"
  by (simp add: researchPhase_def Let_def split: prod.splits option.splits)

lemma simulateTick_energy: "energy (simulateTick s r) = energy (beforeResearch r s)"
proof -
  obtain s4 seed where rp: "researchPhase r (rngSeed s) (beforeResearch r s) = (s4, seed)"
    by (cases "researchPhase r (rngSeed s) (beforeResearch r s)")
  then have "energy s4 = energy (beforeResearch r s)"
    using researchPhase_energy [of r "rngSeed s" "beforeResearch r s"] by simp
  with rp show ?thesis
    by (simp add: simulateTick_def beforeResearch_def Let_def phase_fields)
qed

lemma simulateTick_discovered:
  "discoveredRecipes (simulateTick s r)
     = discoveredRecipes (fst (researchPhase r (rngSeed s) (beforeResearch r s)))"
  by (simp add: simulateTick_def beforeResearch_def Let_def phase_fields split: prod.splits)

lemma researchPhase_discovered:
  fixes r seed s3
  defines "und \<equiv> undiscovered r s3"
  defines "ws \<equiv> map (\<lambda>rc. (rc, specWeight r (inventory s3) rc)) und"
  shows "discoveredRecipes (fst (researchPhase r seed s3))
     = (if rActive (research s3)
           \<and> energyCost (researchCfg r) \<le> produced (energy s3) - consumed (energy s3)
           \<and> und \<noteq> [] \<and> snd (rngNext seed) < discoveryChance (researchCfg r)
        then (case firstReaching (snd (rngNext (fst (rngNext seed))) * sum_list (map snd ws)) ws of
                Some rc \<Rightarrow> discoveredRecipes s3 @ [rcId rc]
              | None \<Rightarrow> discoveredRecipes s3)
        else discoveredRecipes s3)"
proof -
  have w: "map (\<lambda>rc. (rc, recipeWeight r (inventory s3) rc)) und = ws"
    by (simp add: ws_def recipeWeight_spec)
  show ?thesis
    using w
    by (simp add: researchPhase_def Let_def und_def [symmetric] undiscovered_def [symmetric]
        foldl_total selectRecipe_firstReaching split: prod.splits option.splits)
qed


lemma undiscovered_before: "undiscovered r (beforeResearch r s) = undiscovered r s"
  by (simp add: undiscovered_def beforeResearch_fields)

text \<open>
  C8. A tick adds at most one recipe to the discovered list, an undiscovered one; it adds
  one only when research is active and the spare energy, produced minus consumed, is at
  least the research energy cost; and when moreover the first draw is below the discovery
  chance and some recipe is undiscovered, the recipe added is the one the walk selects: the
  first undiscovered recipe, in rule-table order, at which the weights subtracted so far
  from the second draw scaled to the total weight bring it to 0 or less, the weight of a
  recipe being 1 plus \<open>proximityWeight\<close> times the number of its input items held in the
  inventory.
\<close>

theorem research_discovers_at_most_one:
  fixes s :: state and r :: rules
  defines "s' \<equiv> simulateTick s r"
  defines "und \<equiv> undiscovered r s"
  defines "ws \<equiv> map (\<lambda>rc. (rc, specWeight r (inventory (beforeResearch r s)) rc)) und"
  defines "spare \<equiv> produced (energy s') - consumed (energy s')"
  shows "(discoveredRecipes s' = discoveredRecipes s
            \<or> (\<exists>rc \<in> set und. discoveredRecipes s' = discoveredRecipes s @ [rcId rc]))
       \<and> (discoveredRecipes s' \<noteq> discoveredRecipes s
            \<longrightarrow> rActive (research s) \<and> energyCost (researchCfg r) \<le> spare)
       \<and> (rActive (research s) \<and> energyCost (researchCfg r) \<le> spare
            \<and> firstDraw s < discoveryChance (researchCfg r) \<and> und \<noteq> []
            \<longrightarrow> discoveredRecipes s'
                  = (case firstReaching (secondDraw s * sum_list (map snd ws)) ws of
                       Some rc \<Rightarrow> discoveredRecipes s @ [rcId rc]
                     | None \<Rightarrow> discoveredRecipes s))"
proof -
  let ?s3 = "beforeResearch r s"
  let ?pick = "firstReaching (secondDraw s * sum_list (map snd ws)) ws"
  let ?go = "rActive (research s) \<and> energyCost (researchCfg r) \<le> spare
               \<and> und \<noteq> [] \<and> firstDraw s < discoveryChance (researchCfg r)"
  have d: "discoveredRecipes s'
             = (if ?go then (case ?pick of Some rc \<Rightarrow> discoveredRecipes s @ [rcId rc]
                                          | None \<Rightarrow> discoveredRecipes s)
                else discoveredRecipes s)"
    unfolding s'_def und_def ws_def spare_def firstDraw_def secondDraw_def
      simulateTick_discovered simulateTick_energy
    by (rule researchPhase_discovered [of r "rngSeed s" ?s3,
          unfolded undiscovered_before beforeResearch_fields])
  have pick: "rc \<in> set und" if "?pick = Some rc" for rc
  proof -
    from that obtain i where "i < length ws" and "rc = fst (ws ! i)"
      by (auto simp: firstReaching_def dest!: find_Some_iff [THEN iffD1])
    then show ?thesis
      by (auto simp: ws_def)
  qed
  show ?thesis
  proof (cases ?go)
    case False
    with d show ?thesis by auto
  next
    case True
    show ?thesis
    proof (cases ?pick)
      case None
      with d True show ?thesis by simp
    next
      case (Some rc)
      with d True pick [of rc] show ?thesis by auto
    qed
  qed
qed



theorem research_discovers_at_most_one_witness:
  "rActive (research researchState)
   \<and> energyCost (researchCfg demoRules)
        \<le> produced (energy (simulateTick researchState demoRules))
           - consumed (energy (simulateTick researchState demoRules))
   \<and> firstDraw researchState < discoveryChance (researchCfg demoRules)
   \<and> map rcId (undiscovered demoRules researchState) = [''planks'', ''charcoal'']
   \<and> map (specWeight demoRules (inventory (beforeResearch demoRules researchState)))
         (undiscovered demoRules researchState) = [3 / 2, 3 / 2]
   \<and> secondDraw researchState * 3 = 1628168961 / 1073741824
   \<and> discoveredRecipes (simulateTick researchState demoRules) = [''charcoal'']"
proof -
  let ?s = researchState and ?r = demoRules
  let ?ws = "map (\<lambda>rc. (rc, specWeight ?r (inventory (beforeResearch ?r ?s)) rc))
               (undiscovered ?r ?s)"
  have a: "rActive (research ?s)"
    by (simp add: researchState_def)
  have e: "energy (simulateTick ?s ?r) = \<lparr>produced = 3, consumed = 0\<rparr>"
    unfolding simulateTick_energy
    by (simp add: beforeResearch_def tick_defs researchState_def demo_defs)
  have f: "firstDraw ?s = 16006797 / 2147483648"
    by (simp add: firstDraw_def researchState_def demoState_def rngNext_def Let_def)
  have g: "secondDraw ?s = 542722987 / 1073741824"
    by (simp add: secondDraw_def researchState_def demoState_def rngNext_def Let_def)
  have u: "undiscovered ?r ?s = recipes ?r"
    by (simp add: undiscovered_def researchState_def demo_defs)
  have iv: "inventory (beforeResearch ?r ?s)
              = [(''production_machine'', Number 1), (''wood'', Number 2)]"
    by (simp add: beforeResearch_def tick_defs researchState_def demo_defs)
  have ws: "?ws = [(recipes ?r ! 0, 3 / 2), (recipes ?r ! 1, 3 / 2)]"
    unfolding u iv by (simp add: specWeight_def proximity_def getQty_def demoRules_def)
  have pick: "firstReaching (secondDraw ?s * sum_list (map snd ?ws)) ?ws = Some (recipes ?r ! 1)"
    unfolding ws g by (simp add: firstReaching_def upt_conv_Cons)
  have go: "rActive (research ?s)
      \<and> energyCost (researchCfg ?r)
           \<le> produced (energy (simulateTick ?s ?r)) - consumed (energy (simulateTick ?s ?r))
      \<and> firstDraw ?s < discoveryChance (researchCfg ?r) \<and> undiscovered ?r ?s \<noteq> []"
    by (simp add: a e f u) (simp add: demoRules_def)
  from research_discovers_at_most_one [of ?s ?r] go
  have "discoveredRecipes (simulateTick ?s ?r)
          = (case firstReaching (secondDraw ?s * sum_list (map snd ?ws)) ?ws of
               Some rc \<Rightarrow> discoveredRecipes ?s @ [rcId rc]
             | None \<Rightarrow> discoveredRecipes ?s)"
    by blast
  with pick have d: "discoveredRecipes (simulateTick ?s ?r) = [''charcoal'']"
    by (simp add: researchState_def demo_defs)
  have w: "map (specWeight ?r (inventory (beforeResearch ?r ?s))) (undiscovered ?r ?s) = [3 / 2, 3 / 2]"
    unfolding u iv by (simp add: specWeight_def proximity_def getQty_def demoRules_def)
  have n: "map rcId (undiscovered ?r ?s) = [''planks'', ''charcoal'']"
    unfolding u by (simp add: demoRules_def)
  from go d w n g show ?thesis by simp
qed

subsection \<open>Placement\<close>

lemma isColliding_iff: "isColliding x y sz ps \<longleftrightarrow> (\<exists>p \<in> set ps. overlaps x y sz p)"
  by (induction ps) (auto simp: overlaps_def Let_def)

lemma overlaps_sym:
  "overlaps (pX p) (pY p) (pSize p) q \<longleftrightarrow> overlaps (pX q) (pY q) (pSize q) p"
  by (auto simp: overlaps_def)

lemma allSeparate_snoc:
  "allSeparate (ps @ [q]) \<longleftrightarrow>
     allSeparate ps \<and> (\<forall>p \<in> set ps. \<not> overlaps (pX q) (pY q) (pSize q) p)"
  by (induction ps) (auto simp: list_all_iff overlaps_sym)

lemma allSeparate_drop_one: "allSeparate (xs @ y # ys) \<Longrightarrow> allSeparate (xs @ ys)"
  by (induction xs) (auto simp: list_all_iff)

lemma allSeparate_splice1: "allSeparate ps \<Longrightarrow> allSeparate (splice1 j ps)"
proof (cases "j < length ps")
  case True
  assume "allSeparate ps"
  with True show ?thesis
    using allSeparate_drop_one [of "take j ps" "ps ! j" "drop (Suc j) ps"]
    by (simp add: splice1_def id_take_nth_drop [symmetric])
next
  case False
  assume "allSeparate ps"
  with False show ?thesis by (simp add: splice1_def)
qed

lemma in_set_splice1: "x \<in> set (splice1 j ps) \<Longrightarrow> x \<in> set ps"
  unfolding splice1_def
  by (auto dest: in_set_takeD in_set_dropD)

lemma placementsOk_remove:
  assumes "placementsOk fs"
  shows "placementsOk (fs\<lparr>placements := removePlacement ident (placements fs)\<rparr>)"
  using assms
  by (auto simp: placementsOk_def removePlacement_def list_all_iff allSeparate_splice1
      dest: in_set_splice1 split: option.splits)

lemma placementsOk_add:
  assumes "placementsOk fs"
    and "isWithinBounds x y sz (width fs) (height fs)"
    and "\<not> isColliding x y sz (placements fs)"
  shows "placementsOk (fs\<lparr>placements := placements fs @
            [\<lparr>pId = ident, pX = x, pY = y, pSize = sz, pType = k\<rparr>]\<rparr>)"
  using assms
  by (auto simp: placementsOk_def list_all_iff allSeparate_snoc isColliding_iff
      inBounds_def isWithinBounds_def)

lemma placementsOk_grow:
  assumes "placementsOk fs" and "width fs \<le> w" and "height fs \<le> h"
  shows "placementsOk (fs\<lparr>width := w, height := h\<rparr>)"
  using assms
  by (auto simp: placementsOk_def list_all_iff inBounds_def)

lemma findTarget_chunk:
  assumes "findTarget w h c t = Some y" and "0 \<le> c"
  shows "0 \<le> fst y"
proof -
  have "0 \<le> c \<longrightarrow> 0 \<le> fst y"
    by (rule findTarget.raw_induct [where P = "\<lambda>w h c t y. 0 \<le> c \<longrightarrow> 0 \<le> fst y", OF _ assms(1)])
       (auto split: if_splits)
  with assms(2) show ?thesis by simp
qed


lemma canPlaceAt_None:
  "canPlaceAt s x y sz = None \<longleftrightarrow>
     isWithinBounds x y sz (width (floorSpace s)) (height (floorSpace s))
     \<and> \<not> isColliding x y sz (placements (floorSpace s))"
  by (simp add: canPlaceAt_def)

lemma simulateTick_floor: "floorSpace (simulateTick s r) = floorSpace s"
proof -
  have "floorSpace (fst (researchPhase r seed t)) = floorSpace t" for seed t
    by (simp add: researchPhase_def Let_def split: prod.splits option.splits)
  then have "researchPhase r seed t = (s4, seed') \<Longrightarrow> floorSpace s4 = floorSpace t"
    for seed t s4 seed'
    by (metis fst_conv)
  then show ?thesis
    by (auto simp: simulateTick_def Let_def allocatePower_def extractionPhase_def
        machinePhase_def marketPhase_def deepClone_fields split: prod.splits)
qed

lemma addMachine_floor:
  assumes "addMachine newId s r px py = (s', e)" and "placementsOk (floorSpace s)"
  shows "placementsOk (floorSpace s')"
  using assms
  by (auto simp: addMachine_def Let_def deepClone_fields canPlaceAt_None
      intro: placementsOk_add split: option.splits if_splits)

lemma addGenerator_floor:
  assumes "addGenerator newId s r gt px py = (s', e)" and "placementsOk (floorSpace s)"
  shows "placementsOk (floorSpace s')"
  using assms
  by (auto simp: addGenerator_def Let_def deepClone_fields canPlaceAt_None
      intro: placementsOk_add split: option.splits if_splits)

lemma removeMachine_floor:
  assumes "removeMachine s r mid = (s', e)" and "placementsOk (floorSpace s)"
  shows "placementsOk (floorSpace s')"
  using assms
  by (auto simp: removeMachine_def Let_def deepClone_fields
      intro: placementsOk_remove split: option.splits)

lemma removeGenerator_floor:
  assumes "removeGenerator s r gid = (s', e)" and "placementsOk (floorSpace s)"
  shows "placementsOk (floorSpace s')"
  using assms
  by (auto simp: removeGenerator_def Let_def deepClone_fields
      intro: placementsOk_remove split: option.splits)

lemma buyFloorSpace_floor:
  assumes "buyFloorSpace s r = Some (s', e)" and "placementsOk (floorSpace s)"
    and "0 \<le> initialChunkSize (floorSpaceCfg r)"
  shows "placementsOk (floorSpace s')"
proof -
  obtain ex where ex: "getNextExpansionChunk (deepClone s) r = Some ex"
    using assms(1) by (auto simp: buyFloorSpace_def Let_def split: option.splits)
  then obtain c t where ft: "findTarget (width (floorSpace s)) (height (floorSpace s))
        (initialChunkSize (floorSpaceCfg r)) (initialWidth (floorSpaceCfg r) * 2) = Some (c, t)"
    by (auto simp: getNextExpansionChunk_def Let_def deepClone_fields split: option.splits)
  from findTarget_chunk [OF ft assms(3)] have c: "0 \<le> c" by simp
  from ex ft c have grow: "width (floorSpace s) \<le> newWidth ex" "height (floorSpace s) \<le> newHeight ex"
    by (auto simp: getNextExpansionChunk_def Let_def deepClone_fields)
  from assms(1) ex have "floorSpace s' = floorSpace s
      \<or> floorSpace s' = (floorSpace s)\<lparr>width := newWidth ex, height := newHeight ex\<rparr>"
    by (auto simp: buyFloorSpace_def Let_def deepClone_fields split: if_splits)
  with assms(2) grow show ?thesis
    by (auto intro: placementsOk_grow)
qed

lemma other_handlers_floor:
  "assignRecipe s r mid rid = (s', e) \<Longrightarrow> floorSpace s' = floorSpace s"
  "sellGoods s r item q = (s', e) \<Longrightarrow> floorSpace s' = floorSpace s"
  "toggleResearch s r b = (s', e) \<Longrightarrow> floorSpace s' = floorSpace s"
  "unlockRecipe s r rid' = (s', e) \<Longrightarrow> floorSpace s' = floorSpace s"
  "unblockMachine s r mid = (s', e) \<Longrightarrow> floorSpace s' = floorSpace s"
  "toggleMachine s r mid = (s', e) \<Longrightarrow> floorSpace s' = floorSpace s"
  "buyInventorySpace s r = (s', e) \<Longrightarrow> floorSpace s' = floorSpace s"
  by (auto simp: assignRecipe_def sellGoods_def toggleResearch_def unlockRecipe_def
      unblockMachine_def toggleMachine_def buyInventorySpace_def Let_def deepClone_fields
      split: option.splits if_splits)

lemma engine_floor:
  assumes "engine newId s r a = Some (s', e)" and "placementsOk (floorSpace s)"
    and "0 \<le> initialChunkSize (floorSpaceCfg r)"
  shows "placementsOk (floorSpace s')"
  using assms
  by (cases a)
     (auto simp: simulateTick_floor other_handlers_floor
       dest: addMachine_floor addGenerator_floor removeMachine_floor removeGenerator_floor
         buyFloorSpace_floor)

lemma replay_floor:
  assumes "replay ids r s acts = Some s'" and "placementsOk (floorSpace s)"
    and "0 \<le> initialChunkSize (floorSpaceCfg r)"
  shows "placementsOk (floorSpace s')"
  using assms
proof (induction acts arbitrary: ids s)
  case Nil
  then show ?case by simp
next
  case (Cons a acts)
  then show ?case
    by (auto split: option.splits prod.splits dest: engine_floor)
qed


lemma inBounds_footprint:
  "inBounds w h p \<Longrightarrow> footprintOf p \<subseteq> floorArea w h"
  by (auto simp: inBounds_def footprintOf_def footprint_def floorArea_def)

lemma separate_footprints:
  "\<not> overlaps x y sz p \<Longrightarrow> footprint x y sz \<inter> footprintOf p = {}"
  by (auto simp: overlaps_def footprintOf_def footprint_def)

lemma overlapping_footprints:
  assumes "overlaps x y sz p" and "0 < sz" and "0 < pSize p"
  shows "footprint x y sz \<inter> footprintOf p \<noteq> {}"
proof -
  from assms have "(max x (pX p), max y (pY p)) \<in> footprint x y sz \<inter> footprintOf p"
    by (auto simp: overlaps_def footprintOf_def footprint_def max_def)
  then show ?thesis by blast
qed

lemma overlaps_meet:
  assumes "0 < sz" and "0 < pSize p"
  shows "overlaps x y sz p \<longleftrightarrow> footprint x y sz \<inter> footprintOf p \<noteq> {}"
  using assms separate_footprints [of x y sz p] overlapping_footprints [of x y sz p]
  by blast

lemma footprint_on_floor_iff:
  assumes "0 < sz"
  shows "footprint x y sz \<subseteq> floorArea w h \<longleftrightarrow> isWithinBounds x y sz w h"
proof
  assume sub: "footprint x y sz \<subseteq> floorArea w h"
  have lo: "(x, y) \<in> footprint x y sz"
    using assms by (simp add: footprint_def)
  with sub have xy: "0 \<le> x" "0 \<le> y"
    by (auto simp: floorArea_def)
  have "x + sz \<le> real_of_int w"
  proof (rule ccontr)
    assume "\<not> x + sz \<le> real_of_int w"
    then have "(max x (real_of_int w), y) \<in> footprint x y sz"
      using assms by (auto simp: footprint_def max_def)
    with sub show False by (auto simp: floorArea_def max_def split: if_splits)
  qed
  moreover have "y + sz \<le> real_of_int h"
  proof (rule ccontr)
    assume "\<not> y + sz \<le> real_of_int h"
    then have "(x, max y (real_of_int h)) \<in> footprint x y sz"
      using assms by (auto simp: footprint_def max_def)
    with sub show False by (auto simp: floorArea_def max_def split: if_splits)
  qed
  ultimately show "isWithinBounds x y sz w h"
    using xy by (simp add: isWithinBounds_def)
next
  assume "isWithinBounds x y sz w h"
  then show "footprint x y sz \<subseteq> floorArea w h"
    by (auto simp: isWithinBounds_def footprint_def floorArea_def)
qed

lemma allSeparate_nth:
  "allSeparate ps \<Longrightarrow> i < j \<Longrightarrow> j < length ps
     \<Longrightarrow> \<not> overlaps (pX (ps ! i)) (pY (ps ! i)) (pSize (ps ! i)) (ps ! j)"
proof (induction ps arbitrary: i j)
  case Nil
  then show ?case by simp
next
  case (Cons p ps)
  show ?case
  proof (cases i)
    case 0
    with Cons.prems obtain j' where "j = Suc j'" and "j' < length ps"
      by (cases j) auto
    with 0 Cons.prems(1) show ?thesis
      by (auto simp: list_all_iff)
  next
    case (Suc i')
    with Cons.prems obtain j' where "j = Suc j'" and "i' < j'" and "j' < length ps"
      by (cases j) auto
    with Suc Cons.IH [of i' j'] Cons.prems(1) show ?thesis by simp
  qed
qed

text \<open>The engine keeps a floor on the grid, under actions on the grid.\<close>

lemma onGrid_remove:
  assumes "onGrid fs"
  shows "onGrid (fs\<lparr>placements := removePlacement ident (placements fs)\<rparr>)"
  using assms
  by (auto simp: onGrid_def removePlacement_def list_all_iff
      dest: in_set_splice1 split: option.splits)

lemma addMachine_grid:
  assumes "addMachine newId s r px py = (s', e)" and "onGrid (floorSpace s)"
    and "gridAction r (AddMachine px py)"
  shows "onGrid (floorSpace s')"
  using assms
  by (auto simp: addMachine_def Let_def deepClone_fields onGrid_def wholePlacement_def
      wholeSide_def split: option.splits if_splits)

lemma addGenerator_grid:
  assumes "addGenerator newId s r gt px py = (s', e)" and "onGrid (floorSpace s)"
    and "gridAction r (AddGenerator gt px py)"
  shows "onGrid (floorSpace s')"
  using assms
  by (auto simp: addGenerator_def Let_def deepClone_fields onGrid_def wholePlacement_def
      wholeSide_def split: option.splits if_splits)

lemma removeMachine_grid:
  assumes "removeMachine s r mid = (s', e)" and "onGrid (floorSpace s)"
  shows "onGrid (floorSpace s')"
  using assms
  by (auto simp: removeMachine_def Let_def deepClone_fields
      intro: onGrid_remove split: option.splits)

lemma removeGenerator_grid:
  assumes "removeGenerator s r gid = (s', e)" and "onGrid (floorSpace s)"
  shows "onGrid (floorSpace s')"
  using assms
  by (auto simp: removeGenerator_def Let_def deepClone_fields
      intro: onGrid_remove split: option.splits)

lemma buyFloorSpace_grid:
  assumes "buyFloorSpace s r = Some (s', e)" and "onGrid (floorSpace s)"
  shows "onGrid (floorSpace s')"
  using assms
  by (auto simp: buyFloorSpace_def Let_def deepClone_fields onGrid_def
      split: option.splits if_splits)

lemma engine_grid:
  assumes "engine newId s r a = Some (s', e)" and "onGrid (floorSpace s)"
    and "gridAction r a"
  shows "onGrid (floorSpace s')"
  using assms
  by (cases a)
     (auto simp: simulateTick_floor other_handlers_floor
       dest: addMachine_grid addGenerator_grid removeMachine_grid removeGenerator_grid
         buyFloorSpace_grid)

lemma replay_grid:
  assumes "replay ids r s acts = Some s'" and "onGrid (floorSpace s)"
    and "list_all (gridAction r) acts"
  shows "onGrid (floorSpace s')"
  using assms
proof (induction acts arbitrary: ids s)
  case Nil
  then show ?case by simp
next
  case (Cons a acts)
  then show ?case
    by (auto split: option.splits prod.splits dest: engine_grid)
qed

text \<open>
  C6, amended. On the grid (integer coordinates and sides, on which the engine's additions
  are exact) and for rules whose initial chunk size is not negative: in every state reached
  by ticks and commands on the grid from a state whose placements are on the grid, apart
  and in bounds, the placements are on the grid, apart and in bounds; every two of their
  footprints are disjoint and every footprint lies within \<open>[0, width) \<times> [0, height)\<close>. For
  integers \<open>x\<close>, \<open>y\<close> and \<open>size\<close>, \<open>canPlaceAt\<close> returns the out-of-bounds failure exactly when
  the footprint leaves the floor, and the collision failure exactly when the footprint
  stays on the floor and overlaps the square of some placement by the standard test.
\<close>

theorem placements_stay_disjoint_and_in_bounds:
  fixes s :: state
  defines "ps \<equiv> placements (floorSpace s)"
    and "w \<equiv> width (floorSpace s)" and "h \<equiv> height (floorSpace s)"
  assumes rules: "0 \<le> initialChunkSize (floorSpaceCfg r)"
    and init: "placementsOk (floorSpace s0)"
    and grid: "onGrid (floorSpace s0)"
    and acts: "list_all (gridAction r) acts"
    and run: "replay ids r s0 acts = Some s"
  shows "placementsOk (floorSpace s)
       \<and> onGrid (floorSpace s)
       \<and> (\<forall>i j. i < j \<and> j < length ps \<longrightarrow> footprintOf (ps ! i) \<inter> footprintOf (ps ! j) = {})
       \<and> (\<forall>p \<in> set ps. footprintOf p \<subseteq> floorArea w h)
       \<and> (\<forall>x y sz. x \<in> \<int> \<and> y \<in> \<int> \<and> sz \<in> \<int> \<longrightarrow>
            (canPlaceAt s x y sz = Some OutOfBounds
               \<longleftrightarrow> \<not> (0 \<le> x \<and> 0 \<le> y \<and> x + sz \<le> real_of_int w \<and> y + sz \<le> real_of_int h))
          \<and> (0 < sz \<longrightarrow>
               (canPlaceAt s x y sz = Some OutOfBounds \<longleftrightarrow> \<not> footprint x y sz \<subseteq> floorArea w h))
          \<and> (canPlaceAt s x y sz = Some Collides
               \<longleftrightarrow> (0 \<le> x \<and> 0 \<le> y \<and> x + sz \<le> real_of_int w \<and> y + sz \<le> real_of_int h)
                   \<and> (\<exists>p \<in> set ps. overlaps x y sz p))
          \<and> (0 < sz \<and> (\<forall>p \<in> set ps. 0 < pSize p) \<longrightarrow>
               (canPlaceAt s x y sz = Some Collides
                  \<longleftrightarrow> footprint x y sz \<subseteq> floorArea w h
                      \<and> (\<exists>p \<in> set ps. footprint x y sz \<inter> footprintOf p \<noteq> {}))))"
proof -
  have ok: "placementsOk (floorSpace s)"
    using run init rules by (rule replay_floor)
  have whole: "onGrid (floorSpace s)"
    using run grid acts by (rule replay_grid)
  have disj: "footprintOf (ps ! i) \<inter> footprintOf (ps ! j) = {}" if "i < j" "j < length ps" for i j
  proof -
    from ok have "allSeparate ps" by (simp add: placementsOk_def ps_def)
    from allSeparate_nth [OF this that]
    show ?thesis
      unfolding footprintOf_def [of "ps ! i"] by (rule separate_footprints)
  qed
  have inside: "footprintOf p \<subseteq> floorArea w h" if "p \<in> set ps" for p
  proof -
    from ok that have "inBounds w h p"
      by (simp add: placementsOk_def list_all_iff ps_def w_def h_def)
    then show ?thesis by (rule inBounds_footprint)
  qed
  have oob: "canPlaceAt s x y sz = Some OutOfBounds \<longleftrightarrow> \<not> isWithinBounds x y sz w h" for x y sz
    by (simp add: canPlaceAt_def w_def h_def)
  have col: "canPlaceAt s x y sz = Some Collides
               \<longleftrightarrow> isWithinBounds x y sz w h \<and> (\<exists>p \<in> set ps. overlaps x y sz p)" for x y sz
    by (simp add: canPlaceAt_def w_def h_def ps_def isColliding_iff)
  have meet: "canPlaceAt s x y sz = Some Collides
               \<longleftrightarrow> footprint x y sz \<subseteq> floorArea w h
                   \<and> (\<exists>p \<in> set ps. footprint x y sz \<inter> footprintOf p \<noteq> {})"
    if "0 < sz" "\<forall>p \<in> set ps. 0 < pSize p" for x y sz
    using that by (auto simp: col footprint_on_floor_iff overlaps_meet)
  have arith: "isWithinBounds x y sz w h
      \<longleftrightarrow> 0 \<le> x \<and> 0 \<le> y \<and> x + sz \<le> real_of_int w \<and> y + sz \<le> real_of_int h" for x y sz
    by (simp add: isWithinBounds_def)
  have placing: "(canPlaceAt s x y sz = Some OutOfBounds
               \<longleftrightarrow> \<not> (0 \<le> x \<and> 0 \<le> y \<and> x + sz \<le> real_of_int w \<and> y + sz \<le> real_of_int h))
          \<and> (0 < sz \<longrightarrow>
               (canPlaceAt s x y sz = Some OutOfBounds \<longleftrightarrow> \<not> footprint x y sz \<subseteq> floorArea w h))
          \<and> (canPlaceAt s x y sz = Some Collides
               \<longleftrightarrow> (0 \<le> x \<and> 0 \<le> y \<and> x + sz \<le> real_of_int w \<and> y + sz \<le> real_of_int h)
                   \<and> (\<exists>p \<in> set ps. overlaps x y sz p))
          \<and> (0 < sz \<and> (\<forall>p \<in> set ps. 0 < pSize p) \<longrightarrow>
               (canPlaceAt s x y sz = Some Collides
                  \<longleftrightarrow> footprint x y sz \<subseteq> floorArea w h
                      \<and> (\<exists>p \<in> set ps. footprint x y sz \<inter> footprintOf p \<noteq> {})))" for x y sz
    using meet [of sz x y] by (simp add: oob col footprint_on_floor_iff arith)
  have apart: "\<forall>i j. i < j \<and> j < length ps \<longrightarrow> footprintOf (ps ! i) \<inter> footprintOf (ps ! j) = {}"
    using disj by simp
  have onFloor: "\<forall>p \<in> set ps. footprintOf p \<subseteq> floorArea w h"
    using inside by simp
  show ?thesis
    by (intro conjI allI impI; (rule ok whole apart [rule_format] onFloor
          placing [THEN conjunct1] placing [THEN conjunct2, THEN conjunct1, rule_format]
          placing [THEN conjunct2, THEN conjunct2, THEN conjunct1]
          placing [THEN conjunct2, THEN conjunct2, THEN conjunct2, rule_format])?)
qed

theorem placements_stay_disjoint_and_in_bounds_witness:
  "0 \<le> initialChunkSize (floorSpaceCfg demoRules)
   \<and> placementsOk (floorSpace cornerState)
   \<and> onGrid (floorSpace cornerState)
   \<and> list_all (gridAction demoRules) [AddMachine (Some 0) (Some 0), BuyFloorSpace, Simulate]
   \<and> replay (\<lambda>n. ''k3f9x2a'') demoRules cornerState
         [AddMachine (Some 0) (Some 0), BuyFloorSpace, Simulate] = Some placedState
   \<and> placementsOk (floorSpace placedState)
   \<and> onGrid (floorSpace placedState)
   \<and> footprintOf (placements (floorSpace placedState) ! 0)
        \<inter> footprintOf (placements (floorSpace placedState) ! 1) = {}
   \<and> canPlaceAt placedState 15 7 2 = Some OutOfBounds
   \<and> canPlaceAt placedState 1 1 2 = Some Collides"
proof -
  let ?ps = "placements (floorSpace placedState)"
  have rules: "0 \<le> initialChunkSize (floorSpaceCfg demoRules)"
    by (simp add: demoRules_def)
  have init: "placementsOk (floorSpace cornerState)"
    by (simp add: cornerState_def cornerPlacement_def demoState_def placementsOk_def
        inBounds_def)
  have grid: "onGrid (floorSpace cornerState)"
    by (simp add: cornerState_def cornerPlacement_def demoState_def onGrid_def
        wholePlacement_def)
  have acts: "list_all (gridAction demoRules)
                [AddMachine (Some 0) (Some 0), BuyFloorSpace, Simulate]"
    by (simp add: demoRules_def wholeSide_def getStructureSize_def)
  have run: "replay (\<lambda>n. ''k3f9x2a'') demoRules cornerState
               [AddMachine (Some 0) (Some 0), BuyFloorSpace, Simulate] = Some placedState"
    by (simp add: tick_defs placedState_def cornerState_def cornerPlacement_def demo_defs
        addMachine_def getStructureSize_def canPlaceAt_def isWithinBounds_def subAndPrune_def
        buyFloorSpace_def getNextExpansionChunk_def findTarget.simps)
  note inst = placements_stay_disjoint_and_in_bounds [OF rules init grid acts run]
  note ok = inst [THEN conjunct1]
  note whole = inst [THEN conjunct2, THEN conjunct1]
  note apartness = inst [THEN conjunct2, THEN conjunct2, THEN conjunct1, rule_format]
  note placing = inst [THEN conjunct2, THEN conjunct2, THEN conjunct2, THEN conjunct2,
      rule_format]
  have ints: "(15 :: real) \<in> \<int> \<and> (7 :: real) \<in> \<int> \<and> (2 :: real) \<in> \<int>"
    "(1 :: real) \<in> \<int> \<and> (1 :: real) \<in> \<int> \<and> (2 :: real) \<in> \<int>"
    by simp_all
  have disj: "footprintOf (?ps ! 0) \<inter> footprintOf (?ps ! 1) = {}"
    by (rule apartness [of 0 1]) (simp add: placedState_def)
  have oob: "canPlaceAt placedState 15 7 2 = Some OutOfBounds"
    unfolding placing [OF ints(1), THEN conjunct1] by (simp add: placedState_def)
  have col: "canPlaceAt placedState 1 1 2 = Some Collides"
    unfolding placing [OF ints(2), THEN conjunct2, THEN conjunct2, THEN conjunct1]
    by (simp add: placedState_def overlaps_def cornerPlacement_def)
  from rules init grid acts run ok whole disj oob col show ?thesis by simp
qed

text \<open>
  C6 as stated fails. The square at (7, 7) of side 2 overlaps the generator at (6, 6) and
  also leaves the 8 by 8 floor: the bounds are checked first, and the failure is the
  out-of-bounds one, not the collision. And under rules with a chunk of -8 the accepted
  expansion shrinks the floor to a width of 0, which leaves that generator out of bounds.
\<close>

theorem collision_hidden_by_bounds:
  "placements (floorSpace cornerState) = [cornerPlacement]
   \<and> overlaps 7 7 2 cornerPlacement
   \<and> canPlaceAt cornerState 7 7 2 = Some OutOfBounds
   \<and> canPlaceAt cornerState 7 7 2 \<noteq> Some Collides
   \<and> placementsOk (floorSpace cornerState)
   \<and> engine [] cornerState shrinkingRules BuyFloorSpace = Some (shrunkState, None)
   \<and> width (floorSpace shrunkState) = 0
   \<and> \<not> placementsOk (floorSpace shrunkState)"
  by (simp add: cornerState_def cornerPlacement_def shrinkingRules_def demo_defs overlaps_def
      canPlaceAt_def isWithinBounds_def placementsOk_def inBounds_def buyFloorSpace_def
      getNextExpansionChunk_def findTarget.simps deepClone_def cloneTable_def
      shrunkState_def)

subsection \<open>The earlier revision, and the expansion in general\<close>


text \<open>The search for the target square returns whenever the first target is positive, so
  the expansion command returns for rules with a positive initial width; an accepted
  expansion grows one dimension by the chunk, the width while it is below the target, and
  debits the square of the chunk at the per-cell cost.\<close>

lemma findTarget_returns:
  assumes "0 < t"
  shows "\<exists>y. findTarget w h c t = Some y"
  using assms
proof (induction "nat (min w h + 1 - t)" arbitrary: c t rule: less_induct)
  case less
  show ?case
  proof (cases "w \<ge> t \<and> h \<ge> t")
    case False
    then show ?thesis by (subst findTarget.simps) auto
  next
    case True
    with less.prems have "nat (min w h + 1 - t * 2) < nat (min w h + 1 - t)" by auto
    from less.hyps [OF this, of "c * 2"] less.prems
    obtain y where "findTarget w h (c * 2) (t * 2) = Some y" by auto
    with True show ?thesis by (subst findTarget.simps) auto
  qed
qed

lemma getNextExpansionChunk_returns:
  "0 < initialWidth (floorSpaceCfg r) \<Longrightarrow> \<exists>ex. getNextExpansionChunk s r = Some ex"
  using findTarget_returns [of "initialWidth (floorSpaceCfg r) * 2" "width (floorSpace s)"
      "height (floorSpace s)" "initialChunkSize (floorSpaceCfg r)"]
  by (auto simp: getNextExpansionChunk_def Let_def)

lemma buyFloorSpace_accepted:
  assumes "buyFloorSpace s r = Some (s', None)"
    and "findTarget (width (floorSpace s)) (height (floorSpace s))
           (initialChunkSize (floorSpaceCfg r)) (initialWidth (floorSpaceCfg r) * 2)
           = Some (chunk, target)"
  shows "credits s' = credits s - chunk * chunk * costPerCell (floorSpaceCfg r)
       \<and> (if width (floorSpace s) < target
            then width (floorSpace s') = width (floorSpace s) + chunk
               \<and> height (floorSpace s') = height (floorSpace s)
            else width (floorSpace s') = width (floorSpace s)
               \<and> height (floorSpace s') = height (floorSpace s) + chunk)"
  using assms
  by (auto simp: buyFloorSpace_def getNextExpansionChunk_def Let_def deepClone_fields
      split: option.splits if_splits)

subsection \<open>Capacity\<close>

text \<open>What does hold of the capacity bound: a tick keeps it. Extraction and recipe outputs
  check the stack bound before they add; the pull phase only takes from the inventory.\<close>

lemma getItemWeight_pos: "positiveWeights r \<Longrightarrow> 0 < getItemWeight item r"
  by (auto simp: positiveWeights_def getItemWeight_def split: option.splits
      dest!: find_Some_iff [THEN iffD1] intro: nth_mem)

lemma in_set_update: "e \<in> set (AList.update k v al) \<Longrightarrow> e = (k, v) \<or> e \<in> set al"
  by (induction al) (auto split: if_splits)

lemma jsonTable_update: "jsonTable iv \<Longrightarrow> jsonTable (AList.update k (Number v) iv)"
  by (auto simp: jsonTable_def dest!: in_set_update)

lemma jsonTable_cloneTable: "jsonTable (cloneTable iv)"
proof -
  have "cloneNum v \<noteq> NaN" for v by (cases v) simp_all
  then show ?thesis by (auto simp: jsonTable_def cloneTable_def)
qed

lemma getQty_update:
  "getQty (AList.update k (Number v) iv) k' = (if k' = k then v else getQty iv k')"
  by (simp add: getQty_def update_conv')

lemma fits_iff:
  "fits r space iv \<longleftrightarrow>
     jsonTable iv
     \<and> (\<forall>item. map_of iv item \<noteq> None \<longrightarrow> getQty iv item * getItemWeight item r \<le> space)"
  unfolding fits_def
  by (auto simp: dom_map_of_conv_image_fst [symmetric] dom_def)

lemma fits_update:
  assumes "fits r space iv" and "v * getItemWeight k r \<le> space"
  shows "fits r space (AList.update k (Number v) iv)"
  using assms
  by (auto simp: fits_iff jsonTable_update getQty_update update_conv')

lemma fits_cloneTable: "fits r space iv \<Longrightarrow> fits r space (cloneTable iv)"
  by (auto simp: fits_iff jsonTable_cloneTable getQty_cloneTable map_of_cloneTable)

lemma div_times_le:
  fixes a w :: int
  assumes "0 < w" and "q \<le> a div w"
  shows "q * w \<le> a"
proof -
  from assms have "q * w \<le> (a div w) * w" by (simp add: mult_right_mono)
  also have "\<dots> \<le> a" using assms(1) by (simp add: minus_mod_eq_div_mult [symmetric])
  finally show ?thesis .
qed

lemma fits_extractNode:
  assumes "positiveWeights r" and "fits r space iv"
  shows "fits r space (extractNode r space iv node)"
proof -
  let ?k = "resourceType node"
  let ?w = "getItemWeight ?k r"
  have w: "0 < ?w" using assms(1) by (rule getItemWeight_pos)
  show ?thesis
  proof (cases "nActive node \<and> 0 < min (rate node) (space div ?w - getQty iv ?k)")
    case False
    with w assms(2) show ?thesis
      by (auto simp: extractNode_def getMaxStack_def Let_def)
  next
    case True
    then have "getQty iv ?k + min (rate node) (space div ?w - getQty iv ?k) \<le> space div ?w"
      by simp
    with w have "(getQty iv ?k + min (rate node) (space div ?w - getQty iv ?k)) * ?w \<le> space"
      by (rule div_times_le)
    with assms(2) True w show ?thesis
      by (simp add: extractNode_def getMaxStack_def Let_def fits_update)
  qed
qed

lemma fits_extraction:
  assumes "positiveWeights r" and "fits r space iv"
  shows "fits r space (foldl (extractNode r space) iv nodes)"
  using assms(2)
  by (induction nodes arbitrary: iv) (simp_all add: fits_extractNode [OF assms(1)])


lemma getQty_pos_Number: "0 < getQty iv k \<Longrightarrow> map_of iv k = Some (Number (getQty iv k))"
  by (cases "map_of iv k" rule: orZero.cases) (simp_all add: getQty_def)

lemma fits_pullItem:
  assumes "positiveWeights r" and "fits r space (snd bi)"
  shows "fits r space (snd (pullItem bi e))"
proof -
  obtain buf iv where bi: "bi = (buf, iv)" by (cases bi)
  obtain item needed where e: "e = (item, needed)" by (cases e)
  let ?toPull = "min (needed - getQty buf item) (getQty iv item)"
  show ?thesis
  proof (cases "0 < needed - getQty buf item \<and> 0 < ?toPull")
    case False
    with assms(2) show ?thesis
      by (auto simp: bi e pullItem_def Let_def)
  next
    case True
    then have pos: "0 < getQty iv item" by simp
    then have entry: "map_of iv item = Some (Number (getQty iv item))"
      by (rule getQty_pos_Number)
    from assms(2) entry have "getQty iv item * getItemWeight item r \<le> space"
      by (simp add: bi fits_iff)
    moreover have "(getQty iv item - ?toPull) * getItemWeight item r
                     \<le> getQty iv item * getItemWeight item r"
      using True getItemWeight_pos [OF assms(1), of item] by (simp add: mult_right_mono)
    ultimately have "(getQty iv item - ?toPull) * getItemWeight item r \<le> space"
      by simp
    with assms(2) have "fits r space (AList.update item (Number (getQty iv item - ?toPull)) iv)"
      by (simp add: bi fits_update)
    with True entry show ?thesis
      by (simp add: bi e pullItem_def Let_def)
  qed
qed

lemma fits_pullPhase:
  assumes "positiveWeights r" and "fits r space (snd bi)"
  shows "fits r space (snd (pullPhase ins bi))"
  using assms(2) unfolding pullPhase_def
  by (induction ins arbitrary: bi) (simp_all add: fits_pullItem [OF assms(1)])

lemma fits_outputs:
  assumes "positiveWeights r" and "fits r space iv" and "distinct (map fst outs)"
    and "\<forall>e \<in> set outs. roomFor r space iv e"
  shows "fits r space (foldl addOutput iv outs)"
  using assms(2-)
proof (induction outs arbitrary: iv)
  case Nil
  then show ?case by simp
next
  case (Cons e rest)
  obtain k q where e: "e = (k, q)" by (cases e)
  let ?iv1 = "addOutput iv (k, q)"
  from Cons.prems e have "roomFor r space iv (k, q)" by simp
  then have "getQty iv k + q \<le> space div getItemWeight k r"
    by (simp add: roomFor_weighted getItemWeight_pos [OF assms(1)])
  then have "(getQty iv k + q) * getItemWeight k r \<le> space"
    using getItemWeight_pos [OF assms(1)] by (simp add: div_times_le)
  with Cons.prems(1) have f1: "fits r space ?iv1"
    by (simp add: addOutput_def fits_update)
  have "\<forall>e' \<in> set rest. roomFor r space ?iv1 e'"
  proof
    fix e' assume e': "e' \<in> set rest"
    with Cons.prems(2) e have "fst e' \<noteq> k" by force
    moreover from Cons.prems(3) e' have "roomFor r space iv e'" by simp
    ultimately show "roomFor r space ?iv1 e'"
      by (cases e') (simp add: roomFor_def getQty_addOutput)
  qed
  with Cons.IH [OF f1] Cons.prems(2) show ?case
    by (simp add: e)
qed

lemma fits_completion:
  assumes "positiveWeights r" and "fits r space (snd bi)" and "distinct (map fst (outputs rc))"
  shows "fits r space (snd (completion r space rc bi))"
  using assms
  by (cases bi) (auto simp: completion_def canProduce_iff fits_outputs)

lemma find_in_set: "find P xs = Some x \<Longrightarrow> x \<in> set xs"
  by (auto simp: find_Some_iff)

lemma fits_processMachine:
  assumes "positiveWeights r" and "objectOutputs r" and "fits r space iv"
  shows "fits r space (snd (processMachine r space unlocked iv m))"
proof (cases "find (\<lambda>rc. Some (rcId rc) = recipeId m) (recipes r)")
  case None
  with assms(3) show ?thesis by (simp add: processMachine_def)
next
  case (Some rc)
  then have "rc \<in> set (recipes r)" by (rule find_in_set)
  with assms(2) have keys: "distinct (map fst (outputs rc))"
    by (simp add: objectOutputs_def)
  have "fits r space (snd (completion r space rc (pullPhase (inputs rc) (internalBuffer m, iv))))"
    by (rule fits_completion [OF assms(1) _ keys], rule fits_pullPhase [OF assms(1)])
       (simp add: assms(3))
  with Some assms(3) show ?thesis
    by (simp add: processMachine_def case_prod_beta)
qed

lemma fits_processMachines:
  assumes "positiveWeights r" and "objectOutputs r" and "fits r space iv"
  shows "fits r space (snd (processMachines r space unlocked iv ms))"
  using assms(3)
proof (induction ms arbitrary: iv)
  case Nil
  then show ?case by simp
next
  case (Cons m ms)
  from fits_processMachine [OF assms(1,2) Cons.prems, of unlocked m]
  have "fits r space (snd (processMachine r space unlocked iv m))" .
  from Cons.IH [OF this] show ?case
    by (simp add: case_prod_beta)
qed

lemma tick_inventory:
  "inventorySpace (simulateTick s r) = inventorySpace s"
  "inventory (simulateTick s r)
     = snd (processMachines r (inventorySpace s) (unlockedRecipes s)
            (foldl (extractNode r (inventorySpace s)) (cloneTable (inventory s))
               (extractionNodes s))
            (machines (allocatePower (deepClone s))))"
proof -
  have rp: "inventory (fst (researchPhase r seed t)) = inventory t
          \<and> inventorySpace (fst (researchPhase r seed t)) = inventorySpace t" for seed t
    by (simp add: researchPhase_def Let_def split: prod.splits option.splits)
  have ap: "inventory (allocatePower t) = inventory t
          \<and> inventorySpace (allocatePower t) = inventorySpace t
          \<and> extractionNodes (allocatePower t) = extractionNodes t
          \<and> unlockedRecipes (allocatePower t) = unlockedRecipes t" for t
    by (simp add: allocatePower_def Let_def)
  obtain s4 seed where r4: "researchPhase r (rngSeed s)
      (machinePhase r (extractionPhase r (allocatePower (deepClone s)))) = (s4, seed)"
    by (cases "researchPhase r (rngSeed s)
      (machinePhase r (extractionPhase r (allocatePower (deepClone s))))")
  with rp [of "rngSeed s" "machinePhase r (extractionPhase r (allocatePower (deepClone s)))"]
  have s4: "inventory s4 = inventory (machinePhase r (extractionPhase r (allocatePower (deepClone s))))"
    "inventorySpace s4 = inventorySpace (machinePhase r (extractionPhase r (allocatePower (deepClone s))))"
    by simp_all
  show "inventorySpace (simulateTick s r) = inventorySpace s"
    using r4 s4 ap [of "deepClone s"]
    by (simp add: simulateTick_def Let_def marketPhase_def machinePhase_def extractionPhase_def
        deepClone_fields split: prod.splits)
  show "inventory (simulateTick s r)
     = snd (processMachines r (inventorySpace s) (unlockedRecipes s)
            (foldl (extractNode r (inventorySpace s)) (cloneTable (inventory s))
               (extractionNodes s))
            (machines (allocatePower (deepClone s))))"
    using r4 s4 ap [of "deepClone s"]
    by (simp add: simulateTick_def Let_def marketPhase_def machinePhase_def extractionPhase_def
        deepClone_fields split: prod.splits)
qed

lemma tick_keeps_capacity:
  assumes "positiveWeights r" and "objectOutputs r" and "withinCapacity r s"
  shows "withinCapacity r (simulateTick s r)"
  using assms(3)
  unfolding withinCapacity_def tick_inventory
  by (intro fits_processMachines [OF assms(1,2)] fits_extraction [OF assms(1)]
      fits_cloneTable)

text \<open>The return of a buffer does not: the state of C3 is within capacity, and the states
  that the removal and the recipe reset leave are not.\<close>

lemma returned_buffer_leaves_capacity:
  "withinCapacity demoRules fullState
   \<and> \<not> withinCapacity demoRules (fst (removeMachine fullState demoRules ''m1''))
   \<and> \<not> withinCapacity demoRules (fst (assignRecipe fullState demoRules ''m1'' None))"
  by (simp add: withinCapacity_def fits_def jsonTable_def fullState_def stalledState_def
      demo_defs removeMachine_def assignRecipe_def recipeError_def returnItem_def
      removePlacement_def splice1_def deepClone_def cloneTable_def getQty_def
      getItemWeight_def)

end
